theory Spec2Isabelle
  imports Main "HOL-Library.Word"
begin

section \<open>Values shared by the two binds\<close>

type_synonym byte = "8 word"

text \<open>
  A run-time panic of the Go program (an index out of range, a nil dereference, a panic
  raised by a library function) ends the call; the model returns it as a value.
\<close>

datatype panic = IndexOutOfRange | NilDereference | TypeAssertion | AddrPanic

text \<open>
  Go error values.  \<open>OpError\<close> stands for the wrapping errors of package net
  (\<open>*net.OpError\<close>, \<open>*os.SyscallError\<close>), which unwrap to their cause;
  \<open>ErrorfW\<close> is \<open>fmt.Errorf\<close> with a \<open>%w\<close> verb and a non-nil cause,
  \<open>ErrorfNil\<close> the same call with a nil cause.  \<open>WgError\<close> is the
  \<open>*wgError\<close> of bind_std.go: it has no Unwrap method.
\<close>

datatype error =
    ErrClosed
  | ErrBindAlreadyOpen
  | EAFNOSUPPORT
  | EADDRINUSE
  | ENETUNREACH
  | Errno nat
  | ErrorNew string
  | ErrorfW string error
  | ErrorfNil string
  | OpError error
  | WgError error
  | CorruptInputError
  | HexError
  | ParseAddrError

text \<open>\<open>errors.Is\<close>: the target is compared with every error of the Unwrap chain.\<close>

fun errors_Is :: "error \<Rightarrow> error \<Rightarrow> bool" where
  "errors_Is (OpError c) t = (OpError c = t \<or> errors_Is c t)"
| "errors_Is (ErrorfW m c) t = (ErrorfW m c = t \<or> errors_Is c t)"
| "errors_Is e t = (e = t)"

text \<open>
  \<open>netip.Addr\<close>: the zero value (invalid), an IPv4 address, or an IPv6 address
  with its zone.  \<open>netip.AddrPort\<close> pairs an address with a 16-bit port.
\<close>

datatype Addr = AddrZero | Addr4 byte byte byte byte | Addr6 "128 word" string

type_synonym AddrPort = "Addr \<times> 16 word"

fun IsValid :: "Addr \<Rightarrow> bool" where
  "IsValid AddrZero = False"
| "IsValid _ = True"

fun Is6 :: "Addr \<Rightarrow> bool" where
  "Is6 (Addr6 _ _) = True"
| "Is6 _ = False"

text \<open>
  A channel of type \<open>chan struct{}\<close> on which nothing is ever sent: it is nil, open
  or closed.  In a \<open>select\<close> with a default branch, the receive case is taken exactly
  when the channel is closed (a receive from a nil or an open channel is not ready).
\<close>

datatype chan = ChanNil | ChanOpen | ChanClosed

fun recv_ready :: "chan \<Rightarrow> bool" where
  "recv_ready ChanClosed = True"
| "recv_ready _ = False"

text \<open>What a call does to the world outside the bind, in order.\<close>

datatype event =
    EvDial AddrPort
  | EvConnClose nat
  | EvRead nat
  | EvWrite nat "byte list"
  | EvSleep nat
  | EvUDPClose nat
  | EvWriteBatch nat "byte list list"
  | EvWriteMsgUDP nat "byte list"
  | EvReadBatch nat
  | EvReadMsgUDP nat
  | EvResolve string
  | EvCreateNetTUN "Addr list" "Addr list" int
  | EvIpcSet string

section \<open>The direct-socket bind (StdNetBind)\<close>

text \<open>
  \<open>*net.UDPAddr\<close> as the address pool holds it: \<open>IP_mem\<close> is the array behind the
  slice \<open>ua.IP\<close> (16 bytes, made by the pool's New), \<open>IP_len\<close> the length of the
  slice, so that \<open>ua.IP\<close> is \<open>take IP_len IP_mem\<close>.
\<close>

record UDPAddr =
  IP_mem :: "byte list"
  IP_len :: nat
  Port :: int
  Zone :: string

text \<open>
  \<open>ipv4.Message\<close> and \<open>ipv6.Message\<close>: both are aliases of
  \<open>socket.Message\<close> in golang.org/x/net, so the two message pools hold values of one
  type.  \<open>msg_Addr\<close> is None for a nil \<open>net.Addr\<close>.
\<close>

record Message =
  Buffers :: "byte list list"
  OOB :: "byte list"
  msg_Addr :: "UDPAddr option"
  msg_N :: int
  msg_NN :: int

text \<open>
  \<open>StdNetBind\<close>.  A \<open>*net.UDPConn\<close> is a socket handle; a packet connection
  (\<open>ipv4PC\<close>, \<open>ipv6PC\<close>) is the handle it wraps.  A \<open>sync.Pool\<close> is the list of
  the values put back into it.  \<open>controlFns\<close> are functions of the caller's, known
  here by a number each.  The mutex \<open>mu\<close> is not modelled.
\<close>

record StdNetBind =
  ipv4 :: "nat option"
  ipv6 :: "nat option"
  blackhole4 :: bool
  blackhole6 :: bool
  ipv4PC :: "nat option"
  ipv6PC :: "nat option"
  udpAddrPool :: "UDPAddr list"
  ipv4MsgsPool :: "Message list list"
  ipv6MsgsPool :: "Message list list"
  controlFns :: "nat list"
  interfaceName :: string
  reserved :: "byte list option"

text \<open>
  The platform and the operating system, as the bind sees them.  \<open>GOOS_linux\<close> is
  \<open>runtime.GOOS == "linux"\<close>; \<open>srcControlSize\<close> and \<open>getListenIP\<close> are declared
  in other files of the package; \<open>setSrcControl\<close> is linked
  from wireguard-go.  \<open>ListenPacket k socks fns network address\<close> is the result of the
  listen of attempt \<open>k\<close> of one Open, made while the sockets \<open>socks\<close> are open: the
  answer of the system may depend on them, since a port that an open socket holds is in
  use.  \<open>ResolveUDPAddr c\<close> is the port of the local address of the socket
  \<open>c\<close>.  \<open>WriteBatch k pc msgs\<close> is the result of the call number
  \<open>k\<close> of one send: the number of messages written and the error.  \<open>ReadBatch\<close>
  returns the messages as filled, their number and the error; \<open>ReadMsgUDP\<close> returns the
  buffer and the control buffer as filled, \<open>n\<close>, \<open>oobn\<close>, the address and the error.
\<close>

record os_env =
  GOOS_linux :: bool
  srcControlSize :: nat
  getListenIP :: "string \<Rightarrow> string \<Rightarrow> error + string"
  ListenPacket :: "nat \<Rightarrow> nat list \<Rightarrow> nat list \<Rightarrow> string \<Rightarrow> string \<Rightarrow> error + nat"
  ResolveUDPAddr :: "nat \<Rightarrow> error + int"
  UDPConn_Close :: "nat \<Rightarrow> error option"
  setSrcControl :: "byte list \<Rightarrow> AddrPort \<Rightarrow> byte list"
  WriteBatch :: "nat \<Rightarrow> nat \<Rightarrow> Message list \<Rightarrow> nat \<times> error option"
  WriteMsgUDP :: "nat \<Rightarrow> nat \<Rightarrow> byte list \<Rightarrow> byte list \<Rightarrow> UDPAddr \<Rightarrow> error option"
  ReadBatch :: "nat \<Rightarrow> Message list \<Rightarrow> Message list \<times> nat \<times> error option"
  ReadMsgUDP ::
    "nat \<Rightarrow> byte list \<Rightarrow> byte list \<Rightarrow> byte list \<times> byte list \<times> int \<times> int \<times> UDPAddr option \<times> error option"

text \<open>\<open>conn.IdealBatchSize\<close> of wireguard-go.\<close>

definition IdealBatchSize :: nat where
  "IdealBatchSize = 128"

definition StdNetBind_setReserved :: "StdNetBind \<Rightarrow> byte list \<Rightarrow> panic + byte list" where
  "StdNetBind_setReserved s b =
     (if length b < 4 \<or> reserved s = None then Inr b
      else (case reserved s of
              None \<Rightarrow> Inr b
            | Some r \<Rightarrow>
                if length r < 3 then Inl IndexOutOfRange
                else Inr (b[1 := r ! 0, 2 := r ! 1, 3 := r ! 2])))"

definition StdNetBind_resetReserved :: "byte list \<Rightarrow> byte list" where
  "StdNetBind_resetReserved b = (if length b < 4 then b else b[1 := 0, 2 := 0, 3 := 0])"

text \<open>\<open>strconv.Itoa\<close>.\<close>

fun digits :: "nat \<Rightarrow> string" where
  "digits n =
     (if n < 10 then [''0123456789'' ! n]
      else digits (n div 10) @ [''0123456789'' ! (n mod 10)])"

definition Itoa :: "int \<Rightarrow> string" where
  "Itoa i = (if i < 0 then CHR ''-'' # digits (nat (- i)) else digits (nat i))"

text \<open>
  The sockets that are open, as the system holds them: the list of their handles.  A
  listen that succeeds adds its socket; \<open>(*net.UDPConn).Close\<close> removes it.
\<close>

definition release :: "nat \<Rightarrow> nat list \<Rightarrow> nat list" where
  "release c socks = removeAll c socks"

text \<open>
  \<open>listenNet\<close>: the socket (nil on an error), the port and the error, as the three
  results of the Go function, and the open sockets after the call.  When
  \<open>ResolveUDPAddr\<close> fails the socket just opened is not closed.
\<close>

definition listenNet ::
  "os_env \<Rightarrow> nat \<Rightarrow> nat list \<Rightarrow> StdNetBind \<Rightarrow> string \<Rightarrow> int \<Rightarrow>
   nat option \<times> int \<times> error option \<times> nat list" where
  "listenNet os k socks s network port =
     (case getListenIP os network (interfaceName s) of
        Inl err \<Rightarrow> (None, 0, Some err, socks)
      | Inr listenIP \<Rightarrow>
          (case ListenPacket os k socks (controlFns s) network (listenIP @ '':'' @ Itoa port) of
             Inl err \<Rightarrow> (None, 0, Some err, socks)
           | Inr conn \<Rightarrow>
               (case ResolveUDPAddr os conn of
                  Inl err \<Rightarrow> (None, 0, Some err, conn # socks)
                | Inr uaddr_Port \<Rightarrow> (Some conn, uaddr_Port, None, conn # socks))))"

definition SetMark :: "StdNetBind \<Rightarrow> 32 word \<Rightarrow> error option" where
  "SetMark s mark = None"

definition UpdateControlFns :: "StdNetBind \<Rightarrow> nat list \<Rightarrow> StdNetBind" where
  "UpdateControlFns s fns = s\<lparr>controlFns := fns\<rparr>"

text \<open>\<open>NewStdNetBind\<close>: no socket, nothing in the pools yet.\<close>

definition NewStdNetBind :: "nat list \<Rightarrow> string \<Rightarrow> byte list option \<Rightarrow> StdNetBind" where
  "NewStdNetBind fns iface rsv =
     \<lparr>ipv4 = None, ipv6 = None, blackhole4 = False, blackhole6 = False,
      ipv4PC = None, ipv6PC = None, udpAddrPool = [], ipv4MsgsPool = [], ipv6MsgsPool = [],
      controlFns = fns, interfaceName = iface, reserved = rsv\<rparr>"

text \<open>The New functions of the three pools.\<close>

definition udpAddrPool_New :: UDPAddr where
  "udpAddrPool_New = \<lparr>IP_mem = replicate 16 0, IP_len = 16, Port = 0, Zone = []\<rparr>"

definition MsgsPool_New :: "os_env \<Rightarrow> Message list" where
  "MsgsPool_New os =
     replicate IdealBatchSize
       \<lparr>Buffers = [[]], OOB = replicate (srcControlSize os) 0, msg_Addr = None,
        msg_N = 0, msg_NN = 0\<rparr>"

text \<open>\<open>Pool.Get\<close>: a value of the pool, or a new one when the pool is empty.\<close>

definition udpAddrPool_Get :: "StdNetBind \<Rightarrow> UDPAddr \<times> StdNetBind" where
  "udpAddrPool_Get s =
     (case udpAddrPool s of
        [] \<Rightarrow> (udpAddrPool_New, s)
      | ua # pool \<Rightarrow> (ua, s\<lparr>udpAddrPool := pool\<rparr>))"

definition ipv4MsgsPool_Get :: "os_env \<Rightarrow> StdNetBind \<Rightarrow> Message list \<times> StdNetBind" where
  "ipv4MsgsPool_Get os s =
     (case ipv4MsgsPool s of
        [] \<Rightarrow> (MsgsPool_New os, s)
      | msgs # pool \<Rightarrow> (msgs, s\<lparr>ipv4MsgsPool := pool\<rparr>))"

definition ipv6MsgsPool_Get :: "os_env \<Rightarrow> StdNetBind \<Rightarrow> Message list \<times> StdNetBind" where
  "ipv6MsgsPool_Get os s =
     (case ipv6MsgsPool s of
        [] \<Rightarrow> (MsgsPool_New os, s)
      | msgs # pool \<Rightarrow> (msgs, s\<lparr>ipv6MsgsPool := pool\<rparr>))"

text \<open>The receive functions Open returns: the closures of makeReceiveIPv4 and makeReceiveIPv6.\<close>

datatype ReceiveFunc = ReceiveIPv4 "nat option" nat | ReceiveIPv6 "nat option" nat

text \<open>The error unless it is nil or \<open>EAFNOSUPPORT\<close>:
  \<open>err != nil && !errors.Is(err, syscall.EAFNOSUPPORT)\<close>.\<close>

definition fatal :: "error option \<Rightarrow> error option" where
  "fatal err =
     (case err of
        None \<Rightarrow> None
      | Some e \<Rightarrow> if errors_Is e EAFNOSUPPORT then None else Some e)"

definition err_Is :: "error option \<Rightarrow> error \<Rightarrow> bool" where
  "err_Is err target = (case err of None \<Rightarrow> False | Some e \<Rightarrow> errors_Is e target)"

text \<open>
  The end of Open, once both listens are done: the packet connections (on Linux), the
  receive functions and the sockets of the bind; no socket at all is \<open>EAFNOSUPPORT\<close>.
\<close>

definition Open_finish ::
  "os_env \<Rightarrow> StdNetBind \<Rightarrow> nat option \<Rightarrow> nat option \<Rightarrow> int \<Rightarrow>
   StdNetBind \<times> (error + ReceiveFunc list \<times> 16 word)" where
  "Open_finish os s v4conn v6conn port =
     (let v4pc = (if GOOS_linux os then v4conn else None);
          s4 = (case v4conn of
                  None \<Rightarrow> s
                | Some c4 \<Rightarrow> (if GOOS_linux os then s\<lparr>ipv4PC := v4pc\<rparr> else s)\<lparr>ipv4 := v4conn\<rparr>);
          fns4 = (case v4conn of None \<Rightarrow> [] | Some c4 \<Rightarrow> [ReceiveIPv4 v4pc c4]);
          v6pc = (if GOOS_linux os then v6conn else None);
          s6 = (case v6conn of
                  None \<Rightarrow> s4
                | Some c6 \<Rightarrow> (if GOOS_linux os then s4\<lparr>ipv6PC := v6pc\<rparr> else s4)\<lparr>ipv6 := v6conn\<rparr>);
          fns = (case v6conn of None \<Rightarrow> fns4 | Some c6 \<Rightarrow> fns4 @ [ReceiveIPv6 v6pc c6])
      in if length fns = 0 then (s6, Inl EAFNOSUPPORT) else (s6, Inr (fns, word_of_int port)))"

text \<open>
  The body of Open from the label \<open>again\<close> on: the bind, the result, the events and
  the open sockets after the call.  \<open>v4conn.Close()\<close> on a nil \<open>v4conn\<close> is a nil
  dereference.
\<close>

function Open_again ::
  "os_env \<Rightarrow> nat list \<Rightarrow> StdNetBind \<Rightarrow> 16 word \<Rightarrow> nat \<Rightarrow> event list \<Rightarrow>
   panic + (StdNetBind \<times> (error + ReceiveFunc list \<times> 16 word) \<times> event list \<times> nat list)" where
  "Open_again os socks s uport tries evs =
     (case listenNet os tries socks s ''udp4'' (uint uport) of
        (v4conn, port4, err4, socks4) \<Rightarrow>
          (case fatal err4 of
             Some e \<Rightarrow> Inr (s, Inl e, evs, socks4)
           | None \<Rightarrow>
               (case listenNet os tries socks4 s ''udp6'' port4 of
                  (v6conn, port, err, socks6) \<Rightarrow>
                    if uport = 0 \<and> err_Is err EADDRINUSE \<and> tries < 100
                    then (case v4conn of
                            None \<Rightarrow> Inl NilDereference
                          | Some c4 \<Rightarrow>
                              Open_again os (release c4 socks6) s uport (Suc tries)
                                (evs @ [EvUDPClose c4]))
                    else (case fatal err of
                            Some e \<Rightarrow>
                              (case v4conn of
                                 None \<Rightarrow> Inl NilDereference
                               | Some c4 \<Rightarrow>
                                   Inr (s, Inl e, evs @ [EvUDPClose c4], release c4 socks6))
                          | None \<Rightarrow>
                              (case Open_finish os s v4conn v6conn port of
                                 (s6, res) \<Rightarrow> Inr (s6, res, evs, socks6))))))"
  by pat_completeness auto
termination
  by (relation "measure (\<lambda>(os, socks, s, uport, tries, evs). 100 - tries)") auto

declare Open_again.simps [simp del]

text \<open>\<open>(*StdNetBind).Open\<close>, called while the sockets \<open>socks\<close> are open.\<close>

definition StdNetBind_Open ::
  "os_env \<Rightarrow> nat list \<Rightarrow> StdNetBind \<Rightarrow> 16 word \<Rightarrow>
   panic + (StdNetBind \<times> (error + ReceiveFunc list \<times> 16 word) \<times> event list \<times> nat list)" where
  "StdNetBind_Open os socks s uport =
     (if ipv4 s \<noteq> None \<or> ipv6 s \<noteq> None then Inr (s, Inl ErrBindAlreadyOpen, [], socks)
      else Open_again os socks s uport 0 [])"

text \<open>\<open>(*StdNetBind).BatchSize\<close>.\<close>

definition StdNetBind_BatchSize :: "os_env \<Rightarrow> nat" where
  "StdNetBind_BatchSize os = (if GOOS_linux os then IdealBatchSize else 1)"

text \<open>
  \<open>(*StdNetBind).Close\<close>: the bind after the call, the error, the events and the open
  sockets after the call.
\<close>

definition StdNetBind_Close ::
  "os_env \<Rightarrow> nat list \<Rightarrow> StdNetBind \<Rightarrow> StdNetBind \<times> error option \<times> event list \<times> nat list" where
  "StdNetBind_Close os socks s =
     (let err1 = (case ipv4 s of None \<Rightarrow> None | Some c \<Rightarrow> UDPConn_Close os c);
          ev1 = (case ipv4 s of None \<Rightarrow> [] | Some c \<Rightarrow> [EvUDPClose c]);
          socks1 = (case ipv4 s of None \<Rightarrow> socks | Some c \<Rightarrow> release c socks);
          s1 = (case ipv4 s of None \<Rightarrow> s | Some c \<Rightarrow> s\<lparr>ipv4 := None, ipv4PC := None\<rparr>);
          err2 = (case ipv6 s1 of None \<Rightarrow> None | Some c \<Rightarrow> UDPConn_Close os c);
          ev2 = (case ipv6 s1 of None \<Rightarrow> [] | Some c \<Rightarrow> [EvUDPClose c]);
          socks2 = (case ipv6 s1 of None \<Rightarrow> socks1 | Some c \<Rightarrow> release c socks1);
          s2 = (case ipv6 s1 of None \<Rightarrow> s1 | Some c \<Rightarrow> s1\<lparr>ipv6 := None, ipv6PC := None\<rparr>);
          s3 = s2\<lparr>blackhole4 := False, blackhole6 := False\<rparr>
      in if err1 \<noteq> None then (s3, err1, ev1 @ ev2, socks2) else (s3, err2, ev1 @ ev2, socks2))"

text \<open>
  \<open>netip.Addr\<close>: \<open>Is4In6\<close>, \<open>As4\<close> (which panics on the zero value and on
  an IPv6 address that does not map an IPv4 one) and \<open>As16\<close>; the 16 bytes of an IPv6
  address, most significant first, and back.
\<close>

definition be_bytes16 :: "128 word \<Rightarrow> byte list" where
  "be_bytes16 w = map (\<lambda>i. ucast (drop_bit (8 * (15 - i)) w)) [0..<16]"

definition of_be_bytes :: "byte list \<Rightarrow> 128 word" where
  "of_be_bytes bs = foldl (\<lambda>w b. push_bit 8 w + ucast b) 0 bs"

fun Is4In6 :: "Addr \<Rightarrow> bool" where
  "Is4In6 (Addr6 w z) = (drop_bit 32 w = 0xffff)"
| "Is4In6 _ = False"

fun As4 :: "Addr \<Rightarrow> panic + byte list" where
  "As4 (Addr4 a b c d) = Inr [a, b, c, d]"
| "As4 AddrZero = Inl AddrPanic"
| "As4 (Addr6 w z) = (if Is4In6 (Addr6 w z) then Inr (drop 12 (be_bytes16 w)) else Inl AddrPanic)"

fun As16 :: "Addr \<Rightarrow> byte list" where
  "As16 (Addr4 a b c d) = replicate 10 0 @ [0xff, 0xff, a, b, c, d]"
| "As16 AddrZero = replicate 16 0"
| "As16 (Addr6 w z) = be_bytes16 w"

text \<open>\<open>(*net.UDPAddr).AddrPort\<close>, by \<open>netip.AddrFromSlice\<close> and \<open>WithZone\<close>.\<close>

definition AddrFromSlice :: "byte list \<Rightarrow> Addr" where
  "AddrFromSlice ip =
     (if length ip = 4 then Addr4 (ip ! 0) (ip ! 1) (ip ! 2) (ip ! 3)
      else if length ip = 16 then Addr6 (of_be_bytes ip) []
      else AddrZero)"

fun WithZone :: "Addr \<Rightarrow> string \<Rightarrow> Addr" where
  "WithZone (Addr6 w z) zone = Addr6 w zone"
| "WithZone ip zone = ip"

definition UDPAddr_AddrPort :: "UDPAddr \<Rightarrow> AddrPort" where
  "UDPAddr_AddrPort a =
     (WithZone (AddrFromSlice (take (IP_len a) (IP_mem a))) (Zone a), word_of_int (Port a))"

text \<open>
  \<open>asEndpoint\<close>: the endpoint holding \<open>ap\<close>.  The pool of interned endpoints saves
  allocations only; endpoints are values here.
\<close>

definition asEndpoint :: "AddrPort \<Rightarrow> AddrPort" where
  "asEndpoint ap = ap"

text \<open>The loop of Send over the buffers: \<open>s.setReserved(bufs[i])\<close>.\<close>

fun setReserved_each :: "StdNetBind \<Rightarrow> byte list list \<Rightarrow> panic + byte list list" where
  "setReserved_each s [] = Inr []"
| "setReserved_each s (b # bufs) =
     (case StdNetBind_setReserved s b of
        Inl p \<Rightarrow> Inl p
      | Inr b' \<Rightarrow>
          (case setReserved_each s bufs of
             Inl p \<Rightarrow> Inl p
           | Inr bufs' \<Rightarrow> Inr (b' # bufs')))"

text \<open>
  The first loop of send4 and send6: message \<open>i\<close> gets the buffer \<open>i\<close>, the address
  and the control data.  More buffers than messages is an index out of range.
\<close>

definition fill_msgs ::
  "os_env \<Rightarrow> Message list \<Rightarrow> byte list list \<Rightarrow> UDPAddr \<Rightarrow> AddrPort \<Rightarrow> panic + Message list" where
  "fill_msgs os msgs bufs ua ep =
     (if length msgs < length bufs then Inl IndexOutOfRange
      else Inr (map (\<lambda>(m, buf). m\<lparr>Buffers := (Buffers m)[0 := buf], msg_Addr := Some ua,
                                    OOB := setSrcControl os (OOB m) ep\<rparr>)
                  (zip (take (length bufs) msgs) bufs)
                @ drop (length bufs) msgs))"

text \<open>
  The write loop on Linux: \<open>WriteBatch\<close> on \<open>msgs[start:len(bufs)]\<close> until an error
  or until a call writes all it was given.  Nothing bounds the number of calls: the loop is
  a partial function, None when it does not return.
\<close>

partial_function (option) WriteBatch_loop ::
  "os_env \<Rightarrow> nat \<Rightarrow> Message list \<Rightarrow> nat \<Rightarrow> nat \<Rightarrow> nat \<Rightarrow> event list \<Rightarrow>
   (panic + error option \<times> event list) option" where
  "WriteBatch_loop os pc msgs nbufs start k evs =
     (if nbufs < start \<or> length msgs < nbufs then Some (Inl IndexOutOfRange)
      else (case WriteBatch os k pc (take (nbufs - start) (drop start msgs)) of
              (n, err) \<Rightarrow>
                if err \<noteq> None \<or> n = nbufs - start
                then Some (Inr (err, evs @ [EvWriteBatch pc
                                   (map (\<lambda>m. Buffers m ! 0) (take (nbufs - start) (drop start msgs)))]))
                else WriteBatch_loop os pc msgs nbufs (start + n) (Suc k)
                       (evs @ [EvWriteBatch pc
                                 (map (\<lambda>m. Buffers m ! 0) (take (nbufs - start) (drop start msgs)))])))"

text \<open>The write loop elsewhere: one \<open>WriteMsgUDP\<close> for each buffer, until an error.\<close>

fun WriteMsgUDP_loop ::
  "os_env \<Rightarrow> nat \<Rightarrow> Message list \<Rightarrow> UDPAddr \<Rightarrow> nat \<Rightarrow> byte list list \<Rightarrow> event list \<Rightarrow>
   error option \<times> event list" where
  "WriteMsgUDP_loop os conn msgs ua i [] evs = (None, evs)"
| "WriteMsgUDP_loop os conn msgs ua i (buf # bufs) evs =
     (case WriteMsgUDP os i conn buf (OOB (msgs ! i)) ua of
        Some err \<Rightarrow> (Some err, evs @ [EvWriteMsgUDP conn buf])
      | None \<Rightarrow> WriteMsgUDP_loop os conn msgs ua (Suc i) bufs (evs @ [EvWriteMsgUDP conn buf]))"

text \<open>
  \<open>send4\<close>: the address and the messages come from the address pool and the IPv4
  message pool and go back to them.  \<open>copy(ua.IP, as4[:])\<close> copies as many bytes as
  the shorter of the two slices has.
\<close>

definition send4 ::
  "os_env \<Rightarrow> StdNetBind \<Rightarrow> nat \<Rightarrow> nat option \<Rightarrow> AddrPort \<Rightarrow> byte list list \<Rightarrow>
   (panic + StdNetBind \<times> error option \<times> event list) option" where
  "send4 os s conn pc ep bufs =
     (case udpAddrPool_Get s of
        (ua0, s1) \<Rightarrow>
          (case As4 (fst ep) of
             Inl p \<Rightarrow> Some (Inl p)
           | Inr as4 \<Rightarrow>
               (let n = min (IP_len ua0) (length as4);
                    ua = ua0\<lparr>IP_mem := take n as4 @ drop n (IP_mem ua0), IP_len := 4,
                             Port := uint (snd ep)\<rparr>
                in case ipv4MsgsPool_Get os s1 of
                     (msgs0, s2) \<Rightarrow>
                       (case fill_msgs os msgs0 bufs ua ep of
                          Inl p \<Rightarrow> Some (Inl p)
                        | Inr msgs \<Rightarrow>
                            (let s3 = s2\<lparr>udpAddrPool := ua # udpAddrPool s2,
                                          ipv4MsgsPool := msgs # ipv4MsgsPool s2\<rparr>
                             in if GOOS_linux os
                                then (case pc of
                                        None \<Rightarrow> Some (Inl NilDereference)
                                      | Some pch \<Rightarrow>
                                          (case WriteBatch_loop os pch msgs (length bufs) 0 0 [] of
                                             None \<Rightarrow> None
                                           | Some (Inl p) \<Rightarrow> Some (Inl p)
                                           | Some (Inr (err, evs)) \<Rightarrow> Some (Inr (s3, err, evs))))
                                else (case WriteMsgUDP_loop os conn msgs ua 0 bufs [] of
                                        (err, evs) \<Rightarrow> Some (Inr (s3, err, evs))))))))"

text \<open>\<open>send6\<close>: the same with \<open>As16\<close> and the IPv6 message pool.\<close>

definition send6 ::
  "os_env \<Rightarrow> StdNetBind \<Rightarrow> nat \<Rightarrow> nat option \<Rightarrow> AddrPort \<Rightarrow> byte list list \<Rightarrow>
   (panic + StdNetBind \<times> error option \<times> event list) option" where
  "send6 os s conn pc ep bufs =
     (case udpAddrPool_Get s of
        (ua0, s1) \<Rightarrow>
          (let as16 = As16 (fst ep);
               n = min (IP_len ua0) (length as16);
               ua = ua0\<lparr>IP_mem := take n as16 @ drop n (IP_mem ua0), IP_len := 16,
                        Port := uint (snd ep)\<rparr>
           in case ipv6MsgsPool_Get os s1 of
                (msgs0, s2) \<Rightarrow>
                  (case fill_msgs os msgs0 bufs ua ep of
                     Inl p \<Rightarrow> Some (Inl p)
                   | Inr msgs \<Rightarrow>
                       (let s3 = s2\<lparr>udpAddrPool := ua # udpAddrPool s2,
                                     ipv6MsgsPool := msgs # ipv6MsgsPool s2\<rparr>
                        in if GOOS_linux os
                           then (case pc of
                                   None \<Rightarrow> Some (Inl NilDereference)
                                 | Some pch \<Rightarrow>
                                     (case WriteBatch_loop os pch msgs (length bufs) 0 0 [] of
                                        None \<Rightarrow> None
                                      | Some (Inl p) \<Rightarrow> Some (Inl p)
                                      | Some (Inr (err, evs)) \<Rightarrow> Some (Inr (s3, err, evs))))
                           else (case WriteMsgUDP_loop os conn msgs ua 0 bufs [] of
                                   (err, evs) \<Rightarrow> Some (Inr (s3, err, evs)))))))"

text \<open>
  \<open>(*StdNetBind).Send\<close>: the bind, the buffers, the error and the events; None when
  the write loop does not return.
\<close>

definition StdNetBind_Send ::
  "os_env \<Rightarrow> StdNetBind \<Rightarrow> byte list list \<Rightarrow> AddrPort \<Rightarrow>
   (panic + StdNetBind \<times> byte list list \<times> error option \<times> event list) option" where
  "StdNetBind_Send os s bufs endpoint =
     (let is6 = Is6 (fst endpoint);
          blackhole = (if is6 then blackhole6 s else blackhole4 s);
          conn = (if is6 then ipv6 s else ipv4 s);
          pc6 = (if is6 then ipv6PC s else None);
          pc4 = (if is6 then None else ipv4PC s)
      in if blackhole then Some (Inr (s, bufs, None, []))
         else (case conn of
                 None \<Rightarrow> Some (Inr (s, bufs, Some EAFNOSUPPORT, []))
               | Some c \<Rightarrow>
                   (case setReserved_each s bufs of
                      Inl p \<Rightarrow> Some (Inl p)
                    | Inr bufs' \<Rightarrow>
                        (case (if is6 then send6 os s c pc6 endpoint bufs'
                               else send4 os s c pc4 endpoint bufs') of
                           None \<Rightarrow> None
                         | Some (Inl p) \<Rightarrow> Some (Inl p)
                         | Some (Inr (s', err, evs)) \<Rightarrow> Some (Inr (s', bufs', err, evs))))))"

text \<open>
  What a receive function of the bind leaves behind: the bind, the buffers, \<open>sizes\<close>
  and \<open>eps\<close> as written, the results \<open>n\<close> and \<open>err\<close>, and the events.
\<close>

record std_recv_result =
  sr_bind :: StdNetBind
  sr_bufs :: "byte list list"
  sr_sizes :: "int list"
  sr_eps :: "AddrPort option list"
  sr_n :: int
  sr_err :: "error option"
  sr_events :: "event list"

text \<open>
  The last loop of a receive function, over the messages \<open>i, i + 1, ...\<close> read
  (\<open>r\<close> of them left).  The assertion \<open>msg.Addr.(*net.UDPAddr)\<close> panics on a nil
  address.  \<open>getSrcFromControl\<close> records the source address of the control data in the
  endpoint of wireguard-go, which is a plain address and port here.
\<close>

fun receive_msgs ::
  "nat \<Rightarrow> nat \<Rightarrow> Message list \<Rightarrow> int list \<Rightarrow> AddrPort option list \<Rightarrow>
   panic + Message list \<times> int list \<times> AddrPort option list" where
  "receive_msgs 0 i msgs sizes eps = Inr (msgs, sizes, eps)"
| "receive_msgs (Suc r) i msgs sizes eps =
     (if length msgs \<le> i then Inl IndexOutOfRange
      else (let msg = msgs ! i
            in if length sizes \<le> i then Inl IndexOutOfRange
               else (case msg_Addr msg of
                       None \<Rightarrow> Inl TypeAssertion
                     | Some ua \<Rightarrow>
                         (let ep = asEndpoint (UDPAddr_AddrPort ua)
                          in if length eps \<le> i then Inl IndexOutOfRange
                             else receive_msgs r (Suc i)
                                    (msgs[i := msg\<lparr>Buffers :=
                                       (Buffers msg)[0 := StdNetBind_resetReserved (Buffers msg ! 0)]\<rparr>])
                                    (sizes[i := msg_N msg]) (eps[i := Some ep])))))"

text \<open>
  The body the two receive functions share, on the message array \<open>msgs0\<close> taken from
  a pool: the buffers of the caller become the buffers of the messages (the same memory),
  one batch or one datagram is read, and the messages read are handed over.  The result
  holds the message array as it goes back to the pool.
\<close>

definition receive_body ::
  "os_env \<Rightarrow> nat option \<Rightarrow> nat \<Rightarrow> Message list \<Rightarrow> byte list list \<Rightarrow> int list \<Rightarrow>
   AddrPort option list \<Rightarrow>
   panic + Message list \<times> byte list list \<times> int list \<times> AddrPort option list \<times> int \<times>
           error option \<times> event list" where
  "receive_body os pc conn msgs0 bufs sizes eps =
     (if length msgs0 < length bufs then Inl IndexOutOfRange
      else (let msgs1 = map (\<lambda>(m, buf). m\<lparr>Buffers := (Buffers m)[0 := buf]\<rparr>)
                          (zip (take (length bufs) msgs0) bufs)
                        @ drop (length bufs) msgs0;
                bufs_of = (\<lambda>msgs. map (\<lambda>m. Buffers m ! 0) (take (length bufs) msgs))
            in if GOOS_linux os
               then (case pc of
                       None \<Rightarrow> Inl NilDereference
                     | Some pch \<Rightarrow>
                         (case ReadBatch os pch msgs1 of
                            (msgs2, numMsgs, err) \<Rightarrow>
                              (case err of
                                 Some e \<Rightarrow>
                                   Inr (msgs2, bufs_of msgs2, sizes, eps, 0, Some e, [EvReadBatch pch])
                               | None \<Rightarrow>
                                   (case receive_msgs numMsgs 0 msgs2 sizes eps of
                                      Inl p \<Rightarrow> Inl p
                                    | Inr (msgs3, sizes', eps') \<Rightarrow>
                                        Inr (msgs3, bufs_of msgs3, sizes', eps', int numMsgs, None,
                                             [EvReadBatch pch])))))
               else (if length msgs1 = 0 then Inl IndexOutOfRange
                     else (let msg = msgs1 ! 0
                           in case ReadMsgUDP os conn (Buffers msg ! 0) (OOB msg) of
                                (b', oob', n, nn, addr, err) \<Rightarrow>
                                  (let msgs2 = msgs1[0 := msg\<lparr>Buffers := (Buffers msg)[0 := b'],
                                                               OOB := oob', msg_Addr := addr,
                                                               msg_N := n, msg_NN := nn\<rparr>]
                                   in case err of
                                        Some e \<Rightarrow>
                                          Inr (msgs2, bufs_of msgs2, sizes, eps, 0, Some e,
                                               [EvReadMsgUDP conn])
                                      | None \<Rightarrow>
                                          (case receive_msgs 1 0 msgs2 sizes eps of
                                             Inl p \<Rightarrow> Inl p
                                           | Inr (msgs3, sizes', eps') \<Rightarrow>
                                               Inr (msgs3, bufs_of msgs3, sizes', eps', 1, None,
                                                    [EvReadMsgUDP conn])))))))"

text \<open>
  The function \<open>makeReceiveIPv4\<close> returns: the message array is taken from
  \<open>s.ipv4MsgsPool\<close> and put back there when the function returns.
\<close>

definition makeReceiveIPv4 ::
  "os_env \<Rightarrow> StdNetBind \<Rightarrow> nat option \<Rightarrow> nat \<Rightarrow> byte list list \<Rightarrow> int list \<Rightarrow>
   AddrPort option list \<Rightarrow> panic + std_recv_result" where
  "makeReceiveIPv4 os s pc conn bufs sizes eps =
     (case ipv4MsgsPool_Get os s of
        (msgs, s1) \<Rightarrow>
          (case receive_body os pc conn msgs bufs sizes eps of
             Inl p \<Rightarrow> Inl p
           | Inr (msgs', bufs', sizes', eps', n, err, evs) \<Rightarrow>
               Inr \<lparr>sr_bind = s1\<lparr>ipv4MsgsPool := msgs' # ipv4MsgsPool s1\<rparr>, sr_bufs = bufs',
                    sr_sizes = sizes', sr_eps = eps', sr_n = n, sr_err = err, sr_events = evs\<rparr>))"

text \<open>
  The function \<open>makeReceiveIPv6\<close> returns.  As in the source (lines 254 and 255), the
  message array is taken from \<open>s.ipv4MsgsPool\<close> and put back there.
\<close>

definition makeReceiveIPv6 ::
  "os_env \<Rightarrow> StdNetBind \<Rightarrow> nat option \<Rightarrow> nat \<Rightarrow> byte list list \<Rightarrow> int list \<Rightarrow>
   AddrPort option list \<Rightarrow> panic + std_recv_result" where
  "makeReceiveIPv6 os s pc conn bufs sizes eps =
     (case ipv4MsgsPool_Get os s of
        (msgs, s1) \<Rightarrow>
          (case receive_body os pc conn msgs bufs sizes eps of
             Inl p \<Rightarrow> Inl p
           | Inr (msgs', bufs', sizes', eps', n, err, evs) \<Rightarrow>
               Inr \<lparr>sr_bind = s1\<lparr>ipv4MsgsPool := msgs' # ipv4MsgsPool s1\<rparr>, sr_bufs = bufs',
                    sr_sizes = sizes', sr_eps = eps', sr_n = n, sr_err = err, sr_events = evs\<rparr>))"

text \<open>Calling a receive function that Open returned.\<close>

fun call_ReceiveFunc ::
  "os_env \<Rightarrow> StdNetBind \<Rightarrow> ReceiveFunc \<Rightarrow> byte list list \<Rightarrow> int list \<Rightarrow> AddrPort option list \<Rightarrow>
   panic + std_recv_result" where
  "call_ReceiveFunc os s (ReceiveIPv4 pc conn) bufs sizes eps =
     makeReceiveIPv4 os s pc conn bufs sizes eps"
| "call_ReceiveFunc os s (ReceiveIPv6 pc conn) bufs sizes eps =
     makeReceiveIPv6 os s pc conn bufs sizes eps"

section \<open>The dialer-relayed bind (WgBind)\<close>

text \<open>
  \<open>wgConn\<close>: the embedded \<open>net.Conn\<close> (a handle of the dialer's) and the channel
  \<open>done\<close>, which connect always creates open; \<open>conn_done\<close> says it has been closed.
\<close>

record wgConn =
  Conn :: nat
  conn_done :: bool

type_synonym StdNetEndpoint = AddrPort

text \<open>
  \<open>WgBind\<close>.  The fields \<open>ctx\<close> and \<open>dialer\<close> are the outside world (the result of
  a dial is a parameter of connect), \<open>connMux\<close> is a lock.  \<open>wb_reserved\<close> is None
  for a nil slice.  \<open>wb_conn\<close> is the \<open>*wgConn\<close> the bind points to; the local
  variables \<open>serverConn\<close> and \<open>udpConn\<close> of the methods alias it.
\<close>

record WgBind =
  wb_endpoint :: StdNetEndpoint
  wb_reserved :: "byte list option"
  wb_conn :: "wgConn option"
  wb_done :: chan

definition NewWgBind :: "AddrPort \<Rightarrow> byte list option \<Rightarrow> WgBind" where
  "NewWgBind endpoint rsv =
     \<lparr>wb_endpoint = endpoint, wb_reserved = rsv, wb_conn = None, wb_done = ChanNil\<rparr>"

text \<open>\<open>(*wgConn).Close\<close>: the new connection state, the error, the events.\<close>

definition wgConn_Close :: "wgConn \<Rightarrow> wgConn \<times> error option \<times> event list" where
  "wgConn_Close w =
     (if conn_done w then (w, Some ErrClosed, [])
      else (w\<lparr>conn_done := True\<rparr>, None, [EvConnClose (Conn w)]))"

text \<open>Closing the connection the bind points to (\<open>wb.conn.Close()\<close>, \<open>udpConn.Close()\<close>).\<close>

definition close_conn :: "WgBind \<Rightarrow> WgBind \<times> event list" where
  "close_conn wb =
     (case wb_conn wb of
        None \<Rightarrow> (wb, [])
      | Some c \<Rightarrow> (case wgConn_Close c of (c', _, evs) \<Rightarrow> (wb\<lparr>wb_conn := Some c'\<rparr>, evs)))"

text \<open>
  The check connect makes twice, before and after taking the lock: the current connection,
  unless there is none or its \<open>done\<close> is closed.
\<close>

definition live_conn :: "WgBind \<Rightarrow> wgConn option" where
  "live_conn wb =
     (case wb_conn wb of
        None \<Rightarrow> None
      | Some serverConn \<Rightarrow> if conn_done serverConn then None else Some serverConn)"

text \<open>
  \<open>connect\<close>.  \<open>dial\<close> is what \<open>wb.dialer.DialContext\<close> returns for the endpoint
  when it is called: an error, or the handle of a new connection.
\<close>

definition connect ::
  "(AddrPort \<Rightarrow> error + nat) \<Rightarrow> WgBind \<Rightarrow> WgBind \<times> (error + wgConn) \<times> event list" where
  "connect dial wb =
     (case live_conn wb of
        Some serverConn \<Rightarrow> (wb, Inr serverConn, [])
      | None \<Rightarrow>
          (case live_conn wb of
             Some serverConn \<Rightarrow> (wb, Inr serverConn, [])
           | None \<Rightarrow>
               (case dial (wb_endpoint wb) of
                  Inl err \<Rightarrow> (wb, Inl (WgError err), [EvDial (wb_endpoint wb)])
                | Inr udpConn \<Rightarrow>
                    (let c = \<lparr>Conn = udpConn, conn_done = False\<rparr>
                     in (wb\<lparr>wb_conn := Some c\<rparr>, Inr c, [EvDial (wb_endpoint wb)])))))"

text \<open>\<open>(*wgError).IsError\<close>, applied to the cause.\<close>

definition wgError_IsError :: "error \<Rightarrow> error \<Rightarrow> bool" where
  "wgError_IsError cause target = errors_Is cause target"

definition WgBind_setReserved :: "WgBind \<Rightarrow> byte list \<Rightarrow> panic + byte list" where
  "WgBind_setReserved wb b =
     (if length b < 4 \<or> wb_reserved wb = None then Inr b
      else (case wb_reserved wb of
              None \<Rightarrow> Inr b
            | Some r \<Rightarrow>
                if length r < 3 then Inl IndexOutOfRange
                else Inr (b[1 := r ! 0, 2 := r ! 1, 3 := r ! 2])))"

definition WgBind_resetReserved :: "byte list \<Rightarrow> byte list" where
  "WgBind_resetReserved b = (if length b < 4 then b else b[1 := 0, 2 := 0, 3 := 0])"

text \<open>\<open>(*WgBind).Open\<close>: the receive functions (one: \<open>wb.receive\<close>) and port 0.\<close>

datatype WgReceiveFunc = WbReceive

definition WgBind_Open :: "WgBind \<Rightarrow> 16 word \<Rightarrow> error + (WgReceiveFunc list \<times> 16 word)" where
  "WgBind_Open wb uport =
     (if recv_ready (wb_done wb) then Inl ErrClosed else Inr ([WbReceive], 0))"

text \<open>\<open>(*WgBind).Reset\<close>.\<close>

definition WgBind_Reset :: "WgBind \<Rightarrow> WgBind \<times> event list" where
  "WgBind_Reset wb = close_conn wb"

text \<open>\<open>(*WgBind).Close\<close>: the bind after the call, the error returned, the events.\<close>

definition WgBind_Close :: "WgBind \<Rightarrow> WgBind \<times> error option \<times> event list" where
  "WgBind_Close wb =
     (case close_conn wb of
        (wb1, evs) \<Rightarrow>
          if wb_done wb1 = ChanNil then (wb1\<lparr>wb_done := ChanOpen\<rparr>, None, evs)
          else if recv_ready (wb_done wb1) then (wb1, Some ErrClosed, evs)
          else (wb1\<lparr>wb_done := ChanClosed\<rparr>, None, evs))"

text \<open>
  What \<open>receive\<close> leaves behind: the bind, the buffers, \<open>sizes\<close> and \<open>eps\<close> as
  written, the results \<open>n\<close> and \<open>err\<close>, and the events of the call.
\<close>

record recv_result =
  rr_bind :: WgBind
  rr_packets :: "byte list list"
  rr_sizes :: "int list"
  rr_eps :: "StdNetEndpoint option list"
  rr_n :: int
  rr_err :: "error option"
  rr_events :: "event list"

text \<open>
  The loop of \<open>receive\<close> over \<open>packets\<close>, at index \<open>i\<close> with the buffers
  \<open>rest\<close> still to fill.  \<open>rd h i b\<close> is what the read number \<open>i\<close> of this call on
  the connection \<open>h\<close> does with the buffer \<open>b\<close>: the buffer as filled, the size and
  the error.  The local \<open>udpConn\<close> is the connection the bind points to.
\<close>

fun receive_loop ::
  "(nat \<Rightarrow> nat \<Rightarrow> byte list \<Rightarrow> byte list \<times> int \<times> error option) \<Rightarrow> WgBind \<Rightarrow> nat \<Rightarrow>
   byte list list \<Rightarrow> nat \<Rightarrow> byte list list \<Rightarrow> int list \<Rightarrow> StdNetEndpoint option list \<Rightarrow>
   event list \<Rightarrow> panic + recv_result" where
  "receive_loop rd wb h packets i [] sizes eps evs =
     Inr \<lparr>rr_bind = wb, rr_packets = packets, rr_sizes = sizes, rr_eps = eps,
          rr_n = int (length packets), rr_err = None, rr_events = evs\<rparr>"
| "receive_loop rd wb h packets i (b # rest) sizes eps evs =
     (case rd h i b of
        (b', sz, err) \<Rightarrow>
          if length sizes \<le> i then Inl IndexOutOfRange
          else (case err of
                  Some e \<Rightarrow>
                    (case close_conn wb of
                       (wb', cevs) \<Rightarrow>
                         if recv_ready (wb_done wb')
                         then Inr \<lparr>rr_bind = wb', rr_packets = packets[i := b'],
                                   rr_sizes = sizes[i := sz], rr_eps = eps, rr_n = int i,
                                   rr_err = Some ErrClosed,
                                   rr_events = evs @ [EvRead h] @ cevs\<rparr>
                         else Inr \<lparr>rr_bind = wb', rr_packets = packets[i := b'],
                                   rr_sizes = (sizes[i := sz])[i := 0], rr_eps = eps,
                                   rr_n = int i, rr_err = None,
                                   rr_events = evs @ [EvRead h] @ cevs\<rparr>)
                | None \<Rightarrow>
                    if length eps \<le> i then Inl IndexOutOfRange
                    else receive_loop rd wb h (packets[i := WgBind_resetReserved b']) (Suc i) rest
                           (sizes[i := sz]) (eps[i := Some (wb_endpoint wb)])
                           (evs @ [EvRead h])))"

text \<open>
  \<open>(*WgBind).receive\<close>.  After a failed connect, \<open>err\<close> is first overwritten
  (\<open>net.ErrClosed\<close> or nil), and only then tested for being a \<open>*wgError\<close>.
\<close>

definition WgBind_receive ::
  "(AddrPort \<Rightarrow> error + nat) \<Rightarrow> (nat \<Rightarrow> nat \<Rightarrow> byte list \<Rightarrow> byte list \<times> int \<times> error option) \<Rightarrow>
   WgBind \<Rightarrow> byte list list \<Rightarrow> int list \<Rightarrow> StdNetEndpoint option list \<Rightarrow> panic + recv_result" where
  "WgBind_receive dial rd wb packets sizes eps =
     (case connect dial wb of
        (wb1, Inl connErr, evs) \<Rightarrow>
          (let err = (if recv_ready (wb_done wb1) then Some ErrClosed else None);
               sleep = (case err of
                          Some (WgError cause) \<Rightarrow>
                            if wgError_IsError cause ENETUNREACH then [EvSleep 2] else []
                        | _ \<Rightarrow> [])
           in Inr \<lparr>rr_bind = wb1, rr_packets = packets, rr_sizes = sizes, rr_eps = eps,
                    rr_n = 0, rr_err = err, rr_events = evs @ sleep\<rparr>)
      | (wb1, Inr udpConn, evs) \<Rightarrow>
          receive_loop rd wb1 (Conn udpConn) packets 0 packets sizes eps evs)"

text \<open>
  The loop of \<open>Send\<close>.  \<open>wr h i b\<close> is the error of the write number \<open>i\<close> of this
  call on the connection \<open>h\<close>.
\<close>

fun send_loop ::
  "(nat \<Rightarrow> nat \<Rightarrow> byte list \<Rightarrow> error option) \<Rightarrow> WgBind \<Rightarrow> nat \<Rightarrow> byte list list \<Rightarrow> nat \<Rightarrow>
   byte list list \<Rightarrow> event list \<Rightarrow> panic + (WgBind \<times> byte list list \<times> error option \<times> event list)" where
  "send_loop wr wb h buffs i [] evs = Inr (wb, buffs, None, evs)"
| "send_loop wr wb h buffs i (b # rest) evs =
     (case WgBind_setReserved wb b of
        Inl p \<Rightarrow> Inl p
      | Inr b' \<Rightarrow>
          (case wr h i b' of
             Some err \<Rightarrow>
               (case close_conn wb of
                  (wb', cevs) \<Rightarrow> Inr (wb', buffs[i := b'], Some err, evs @ [EvWrite h b'] @ cevs))
           | None \<Rightarrow> send_loop wr wb h (buffs[i := b']) (Suc i) rest (evs @ [EvWrite h b'])))"

text \<open>\<open>(*WgBind).Send\<close>: the bind, the buffers, the error and the events.\<close>

definition WgBind_Send ::
  "(AddrPort \<Rightarrow> error + nat) \<Rightarrow> (nat \<Rightarrow> nat \<Rightarrow> byte list \<Rightarrow> error option) \<Rightarrow> WgBind \<Rightarrow>
   byte list list \<Rightarrow> panic + (WgBind \<times> byte list list \<times> error option \<times> event list)" where
  "WgBind_Send dial wr wb buffs =
     (case connect dial wb of
        (wb1, Inl err, evs) \<Rightarrow> Inr (wb1, buffs, Some err, evs)
      | (wb1, Inr udpConn, evs) \<Rightarrow> send_loop wr wb1 (Conn udpConn) buffs 0 buffs evs)"

section \<open>Functions of the Go standard library the outbound uses\<close>

text \<open>
  Strings are byte strings.  The functions below follow the documented behaviour of the
  Go 1.21 library on them; the text of an error is not modelled, its kind is.
\<close>

definition is_digit :: "char \<Rightarrow> bool" where
  "is_digit c = (48 \<le> (of_char c :: nat) \<and> (of_char c :: nat) \<le> 57)"

definition digit_val :: "char \<Rightarrow> nat" where
  "digit_val c = of_char c - 48"

text \<open>\<open>encoding/hex\<close>: \<open>EncodeToString\<close> and \<open>DecodeString\<close>.\<close>

definition hexdigit :: "nat \<Rightarrow> char" where
  "hexdigit n = ''0123456789abcdef'' ! (n mod 16)"

definition hex_EncodeToString :: "byte list \<Rightarrow> string" where
  "hex_EncodeToString bs = concat (map (\<lambda>b. [hexdigit (unat b div 16), hexdigit (unat b mod 16)]) bs)"

definition fromHexChar :: "char \<Rightarrow> nat option" where
  "fromHexChar c =
     (let n = (of_char c :: nat)
      in if 48 \<le> n \<and> n \<le> 57 then Some (n - 48)
         else if 97 \<le> n \<and> n \<le> 102 then Some (n - 87)
         else if 65 \<le> n \<and> n \<le> 70 then Some (n - 55)
         else None)"

fun hex_DecodeString :: "string \<Rightarrow> error + byte list" where
  "hex_DecodeString [] = Inr []"
| "hex_DecodeString [c] = Inl HexError"
| "hex_DecodeString (p # q # src) =
     (case fromHexChar p of
        None \<Rightarrow> Inl HexError
      | Some a \<Rightarrow>
          (case fromHexChar q of
             None \<Rightarrow> Inl HexError
           | Some b \<Rightarrow>
               (case hex_DecodeString src of
                  Inl err \<Rightarrow> Inl err
                | Inr bs \<Rightarrow> Inr (of_nat (a * 16 + b) # bs))))"

text \<open>
  \<open>base64.StdEncoding.DecodeString\<close>: the standard alphabet with \<open>=\<close> padding, not
  strict (the unused bits of the last quantum are not checked); carriage returns and line
  feeds are skipped wherever they stand.
\<close>

definition b64_value :: "char \<Rightarrow> nat option" where
  "b64_value c =
     (let n = (of_char c :: nat)
      in if 65 \<le> n \<and> n \<le> 90 then Some (n - 65)
         else if 97 \<le> n \<and> n \<le> 122 then Some (n - 71)
         else if 48 \<le> n \<and> n \<le> 57 then Some (n + 4)
         else if n = 43 then Some 62
         else if n = 47 then Some 63
         else None)"

fun b64_quanta :: "string \<Rightarrow> error + byte list" where
  "b64_quanta [] = Inr []"
| "b64_quanta (c0 # c1 # c2 # c3 # src) =
     (case b64_value c0 of
        None \<Rightarrow> Inl CorruptInputError
      | Some a \<Rightarrow>
          (case b64_value c1 of
             None \<Rightarrow> Inl CorruptInputError
           | Some b \<Rightarrow>
               if c2 = CHR ''=''
               then (if c3 = CHR ''='' \<and> src = [] then Inr [of_nat (a * 4 + b div 16)]
                     else Inl CorruptInputError)
               else (case b64_value c2 of
                       None \<Rightarrow> Inl CorruptInputError
                     | Some c \<Rightarrow>
                         if c3 = CHR ''=''
                         then (if src = []
                               then Inr [of_nat (a * 4 + b div 16), of_nat (b mod 16 * 16 + c div 4)]
                               else Inl CorruptInputError)
                         else (case b64_value c3 of
                                 None \<Rightarrow> Inl CorruptInputError
                               | Some d \<Rightarrow>
                                   (case b64_quanta src of
                                      Inl err \<Rightarrow> Inl err
                                    | Inr bs \<Rightarrow>
                                        Inr (of_nat (a * 4 + b div 16) #
                                             of_nat (b mod 16 * 16 + c div 4) #
                                             of_nat (c mod 4 * 64 + d) # bs))))))"
| "b64_quanta src = Inl CorruptInputError"

definition base64_DecodeString :: "string \<Rightarrow> error + byte list" where
  "base64_DecodeString s =
     b64_quanta (filter (\<lambda>c. c \<noteq> CHR 0x0A \<and> c \<noteq> CHR 0x0D) s)"

text \<open>
  \<open>strings.ToLower\<close> (on ASCII letters; the other bytes are left as they are, and are
  no hexadecimal digits either way), \<open>strings.TrimPrefix\<close>, the first result of
  \<open>strings.Cut\<close>, and \<open>strings.Join\<close>.
\<close>

definition strings_ToLower :: "string \<Rightarrow> string" where
  "strings_ToLower s =
     map (\<lambda>c. if 65 \<le> (of_char c :: nat) \<and> (of_char c :: nat) \<le> 90
               then ''abcdefghijklmnopqrstuvwxyz'' ! ((of_char c :: nat) - 65) else c) s"

definition strings_TrimPrefix :: "string \<Rightarrow> string \<Rightarrow> string" where
  "strings_TrimPrefix s prefix =
     (if take (length prefix) s = prefix then drop (length prefix) s else s)"

definition strings_Cut_before :: "string \<Rightarrow> char \<Rightarrow> string" where
  "strings_Cut_before s sep = takeWhile (\<lambda>c. c \<noteq> sep) s"

fun strings_Join :: "string list \<Rightarrow> string \<Rightarrow> string" where
  "strings_Join [] sep = []"
| "strings_Join [x] sep = x"
| "strings_Join (x # y # xs) sep = x @ sep @ strings_Join (y # xs) sep"

text \<open>
  \<open>netip.ParseAddr\<close>.  The first of \<open>.\<close>, \<open>:\<close> and \<open>%\<close> in the string decides:
  a dot sends it to \<open>parseIPv4\<close>, modelled below; a colon to \<open>parseIPv6\<close>, which is a
  parameter of the model (\<open>parse6\<close>).
\<close>

fun parseIPv4_from :: "string \<Rightarrow> bool \<Rightarrow> bool \<Rightarrow> nat list \<Rightarrow> nat \<Rightarrow> nat \<Rightarrow> error + Addr" where
  "parseIPv4_from [] first prev_dot flds val digLen =
     (if length flds < 3 then Inl ParseAddrError
      else Inr (Addr4 (of_nat (flds ! 0)) (of_nat (flds ! 1)) (of_nat (flds ! 2)) (of_nat val)))"
| "parseIPv4_from (c # s) first prev_dot flds val digLen =
     (if is_digit c
      then (if digLen = 1 \<and> val = 0 then Inl ParseAddrError
            else if val * 10 + digit_val c > 255 then Inl ParseAddrError
            else parseIPv4_from s False False flds (val * 10 + digit_val c) (digLen + 1))
      else if c = CHR ''.''
      then (if first \<or> s = [] \<or> prev_dot then Inl ParseAddrError
            else if length flds = 3 then Inl ParseAddrError
            else parseIPv4_from s False True (flds @ [val]) 0 0)
      else Inl ParseAddrError)"

definition parseIPv4 :: "string \<Rightarrow> error + Addr" where
  "parseIPv4 s = parseIPv4_from s True False [] 0 0"

definition netip_ParseAddr :: "(string \<Rightarrow> error + Addr) \<Rightarrow> string \<Rightarrow> error + Addr" where
  "netip_ParseAddr parse6 s =
     (case find (\<lambda>c. c = CHR ''.'' \<or> c = CHR '':'' \<or> c = CHR ''%'') s of
        None \<Rightarrow> Inl ParseAddrError
      | Some c \<Rightarrow>
          if c = CHR ''.'' then parseIPv4 s
          else if c = CHR '':'' then parse6 s
          else Inl ParseAddrError)"

text \<open>
  \<open>netip.AddrPort.String\<close>; the text of an IPv6 address (\<open>netip.Addr.String\<close>) is
  a parameter of the model (\<open>string6\<close>).
\<close>

fun AddrPort_String :: "(Addr \<Rightarrow> string) \<Rightarrow> AddrPort \<Rightarrow> string" where
  "AddrPort_String string6 (AddrZero, port) = ''invalid AddrPort''"
| "AddrPort_String string6 (Addr4 a b c d, port) =
     digits (unat a) @ ''.'' @ digits (unat b) @ ''.'' @ digits (unat c) @ ''.'' @ digits (unat d)
       @ '':'' @ digits (unat port)"
| "AddrPort_String string6 (Addr6 w z, port) =
     ''['' @ string6 (Addr6 w z) @ '']:'' @ digits (unat port)"

text \<open>\<open>net.JoinHostPort\<close> and \<open>net.SplitHostPort\<close> (host, port, error).\<close>

definition net_JoinHostPort :: "string \<Rightarrow> string \<Rightarrow> string" where
  "net_JoinHostPort host port =
     (if CHR '':'' \<in> set host then ''['' @ host @ '']:'' @ port else host @ '':'' @ port)"

definition index_of :: "char \<Rightarrow> string \<Rightarrow> nat option" where
  "index_of c s = (if c \<in> set s then Some (length (takeWhile (\<lambda>x. x \<noteq> c) s)) else None)"

definition last_index_of :: "char \<Rightarrow> string \<Rightarrow> nat option" where
  "last_index_of c s =
     (if c \<in> set s then Some (length s - 1 - length (takeWhile (\<lambda>x. x \<noteq> c) (rev s))) else None)"

definition net_SplitHostPort :: "string \<Rightarrow> string \<times> string \<times> error option" where
  "net_SplitHostPort hostport =
     (case last_index_of (CHR '':'') hostport of
        None \<Rightarrow> ([], [], Some (ErrorNew ''missing port in address''))
      | Some i \<Rightarrow>
          (if hd hostport = CHR ''[''
           then (case index_of (CHR '']'') hostport of
                   None \<Rightarrow> ([], [], Some (ErrorNew ''missing ] in address''))
                 | Some e \<Rightarrow>
                     if e + 1 = length hostport
                     then ([], [], Some (ErrorNew ''missing port in address''))
                     else if e + 1 = i
                     then (if CHR ''['' \<in> set (drop 1 hostport)
                           then ([], [], Some (ErrorNew ''unexpected [ in address''))
                           else if CHR '']'' \<in> set (drop (e + 1) hostport)
                           then ([], [], Some (ErrorNew ''unexpected ] in address''))
                           else (take (e - 1) (drop 1 hostport), drop (i + 1) hostport, None))
                     else if hostport ! (e + 1) = CHR '':''
                     then ([], [], Some (ErrorNew ''too many colons in address''))
                     else ([], [], Some (ErrorNew ''missing port in address'')))
           else (if CHR '':'' \<in> set (take i hostport)
                 then ([], [], Some (ErrorNew ''too many colons in address''))
                 else if CHR ''['' \<in> set hostport
                 then ([], [], Some (ErrorNew ''unexpected [ in address''))
                 else if CHR '']'' \<in> set hostport
                 then ([], [], Some (ErrorNew ''unexpected ] in address''))
                 else (take i hostport, drop (i + 1) hostport, None))))"

text \<open>
  \<open>strconv.ParseUint(s, 10, 16)\<close>, its first result: the number when \<open>s\<close> is a
  non-empty string of decimal digits, 65535 when that number does not fit, 0 on a syntax
  error.
\<close>

definition strconv_ParseUint16 :: "string \<Rightarrow> nat" where
  "strconv_ParseUint16 s =
     (if s = [] \<or> \<not> list_all is_digit s then 0
      else min (foldl (\<lambda>n c. n * 10 + digit_val c) 0 s) 65535)"

section \<open>The WireGuard outbound\<close>

text \<open>
  \<open>WireGuardOption\<close>, with the two fields of the embedded \<open>BasicOption\<close> that
  NewWireGuard reads.  \<open>opt_DNS\<close> is empty for a nil slice.
\<close>

record WireGuardOption =
  opt_Interface :: string
  opt_RoutingMark :: int
  opt_Name :: string
  opt_Server :: string
  opt_Port :: int
  opt_IP :: string
  opt_IPv6 :: string
  opt_PrivateKey :: string
  opt_PublicKey :: string
  opt_PresharedKey :: string
  opt_DNS :: "string list"
  opt_MTU :: int
  opt_UDP :: bool
  opt_RemoteDnsResolve :: bool
  opt_Reserved :: string

text \<open>\<open>Base\<close> (its type \<open>tp\<close> is the constant \<open>C.WireGuard\<close>).\<close>

record Base =
  base_name :: string
  base_addr :: string
  base_udp :: bool
  base_iface :: string
  base_rmark :: int

text \<open>The device \<open>device.NewDevice\<close> builds over a TUN device and a bind.\<close>

datatype Device = Device nat WgBind

text \<open>
  \<open>WireGuard\<close>.  The dialer is made from the dial options of \<open>base\<close> and is part
  of the outside world; \<open>upOnce\<close> is the flag \<open>up_done\<close>.  A nil slice is the empty
  list, a nil pointer None.
\<close>

record WireGuard =
  base :: Base
  wgDevice :: "Device option"
  tunDevice :: "nat option"
  netStack :: "nat option"
  bind :: "WgBind option"
  localIP :: Addr
  localIPv6 :: Addr
  dnsServers :: "Addr list"
  wg_reserved :: "byte list option"
  uapiConf :: "string list"
  threadId :: string
  mtu :: int
  up_done :: bool
  upErr :: "error option"
  remoteDnsResolve :: bool

text \<open>
  The loop of NewWireGuard over \<open>dns\<close>: every address parsed is appended to
  \<open>dnsServers\<close> (here \<open>servers\<close>).
\<close>

fun parse_dns :: "(string \<Rightarrow> error + Addr) \<Rightarrow> string list \<Rightarrow> Addr list \<Rightarrow> error + Addr list" where
  "parse_dns parse6 [] servers = Inr servers"
| "parse_dns parse6 (d # dns) servers =
     (case netip_ParseAddr parse6 d of
        Inl err1 \<Rightarrow> Inl (ErrorfW ''parse wireguard dns address failure, cause: '' err1)
      | Inr ip \<Rightarrow> parse_dns parse6 dns (servers @ [ip]))"

text \<open>
  NewWireGuard, lines 227 to 246: the lines of \<open>uapiConf\<close> for the private key, the
  public key and, when one is given, the preshared key.
\<close>

definition uapi_keys :: "WireGuardOption \<Rightarrow> error + string list" where
  "uapi_keys option =
     (case base64_DecodeString (opt_PrivateKey option) of
        Inl err \<Rightarrow> Inl (ErrorfW ''decode wireguard private key failure, cause: '' err)
      | Inr privateKeyBytes \<Rightarrow>
          (case base64_DecodeString (opt_PublicKey option) of
             Inl err \<Rightarrow> Inl (ErrorfW ''decode wireguard peer public key failure, cause: '' err)
           | Inr publicKeyBytes \<Rightarrow>
               (let uapiConf2 = [''private_key='' @ hex_EncodeToString privateKeyBytes,
                                 ''public_key='' @ hex_EncodeToString publicKeyBytes]
                in if opt_PresharedKey option \<noteq> []
                   then (case base64_DecodeString (opt_PresharedKey option) of
                           Inl err \<Rightarrow>
                             Inl (ErrorfW ''decode wireguard preshared key failure, cause: '' err)
                         | Inr bytes \<Rightarrow>
                             Inr (uapiConf2 @ [''preshared_key='' @ hex_EncodeToString bytes]))
                   else Inr uapiConf2)))"

text \<open>NewWireGuard, lines 248 to 254: the reserved bytes, nil when none are configured.\<close>

definition decode_reserved :: "WireGuardOption \<Rightarrow> error + byte list option" where
  "decode_reserved option =
     (if opt_Reserved option \<noteq> []
      then (case hex_DecodeString
                   (strings_TrimPrefix (strings_ToLower (opt_Reserved option)) ''0x'') of
              Inl err \<Rightarrow> Inl (ErrorfW ''decode wireguard reserved 3 bytes failure '' err)
            | Inr reservedBytes \<Rightarrow>
                if length reservedBytes \<noteq> 3
                then Inl (ErrorfNil ''decode wireguard reserved 3 bytes failure '')
                else Inr (Some reservedBytes))
      else Inr None)"

text \<open>
  NewWireGuard, lines 260 to 272: a local address, the zero address when the option is
  empty; what follows a slash is cut off.  \<open>parse6\<close> is \<open>parseIPv6\<close> of package
  netip.
\<close>

definition parse_local :: "(string \<Rightarrow> error + Addr) \<Rightarrow> string \<Rightarrow> string \<Rightarrow> error + Addr" where
  "parse_local parse6 ip msg =
     (if ip \<noteq> []
      then (case netip_ParseAddr parse6 (strings_Cut_before ip (CHR ''/'')) of
              Inl err \<Rightarrow> Inl (ErrorfW msg err)
            | Inr localIP' \<Rightarrow> Inr localIP')
      else Inr AddrZero)"

text \<open>
  NewWireGuard, lines 278 to 289: the DNS servers.  \<open>dnsServers\<close> starts as
  \<open>make([]netip.Addr, len(dns))\<close>, as many zero addresses as there are servers, and
  the loop appends to it.
\<close>

definition parse_dns_servers :: "(string \<Rightarrow> error + Addr) \<Rightarrow> string list \<Rightarrow> error + Addr list" where
  "parse_dns_servers parse6 option_DNS =
     (let dns = (if length option_DNS = 0 then option_DNS @ [''1.1.1.1'', ''8.8.8.8'']
                 else option_DNS)
      in parse_dns parse6 dns (replicate (length dns) AddrZero))"

text \<open>\<open>NewWireGuard\<close>.  \<open>rnd\<close> is the number \<open>rand.Intn(100)\<close> returns.\<close>

definition NewWireGuard ::
  "(string \<Rightarrow> error + Addr) \<Rightarrow> nat \<Rightarrow> WireGuardOption \<Rightarrow> error + WireGuard" where
  "NewWireGuard parse6 rnd option =
     (case uapi_keys option of
        Inl err \<Rightarrow> Inl err
      | Inr uapiConf3 \<Rightarrow>
     (case decode_reserved option of
        Inl err \<Rightarrow> Inl err
      | Inr reservedBytes \<Rightarrow>
     (case parse_local parse6 (opt_IP option)
             ''parse wireguard ip address failure, cause: '' of
        Inl err \<Rightarrow> Inl err
      | Inr localIP' \<Rightarrow>
     (case parse_local parse6 (opt_IPv6 option)
             ''parse wireguard ipv6 address failure, cause: '' of
        Inl err \<Rightarrow> Inl err
      | Inr localIPv6' \<Rightarrow>
     (if \<not> IsValid localIP' \<and> \<not> IsValid localIPv6'
      then Inl (ErrorNew ''wireguard missing local ip'')
      else
     (case parse_dns_servers parse6 (opt_DNS option) of
        Inl err \<Rightarrow> Inl err
      | Inr dnsServers' \<Rightarrow>
     (let uapiConf4 = (if IsValid localIP' then uapiConf3 @ [''allowed_ip=0.0.0.0/0'']
                       else uapiConf3);
          uapiConf5 = (if IsValid localIPv6' then uapiConf4 @ [''allowed_ip=::/0'']
                       else uapiConf4);
          mtu' = (if opt_MTU option = 0 then 1408 else opt_MTU option);
          threadId' = opt_Name option @ ''-'' @ Itoa (int rnd);
          base' = \<lparr>base_name = opt_Name option,
                   base_addr = net_JoinHostPort (opt_Server option) (Itoa (opt_Port option)),
                   base_udp = opt_UDP option, base_iface = opt_Interface option,
                   base_rmark = opt_RoutingMark option\<rparr>
      in Inr \<lparr>base = base', wgDevice = None, tunDevice = None, netStack = None, bind = None,
               localIP = localIP', localIPv6 = localIPv6', dnsServers = dnsServers',
               wg_reserved = reservedBytes, uapiConf = uapiConf5, threadId = threadId',
               mtu = mtu', up_done = False, upErr = None,
               remoteDnsResolve = opt_RemoteDnsResolve option\<rparr>)))))))"

text \<open>
  The outside world of bring-up: \<open>ResolveProxyServerHost k host\<close> is the answer of the
  resolver to the call number \<open>k\<close>; \<open>CreateNetTUN\<close> (of package wireguard) returns the handles of the TUN device and of the network stack;
  \<open>IpcSet\<close> is the answer of the device to the configuration; \<open>Addr_String\<close> is
  the text of an IPv6 address.
\<close>

record init_env =
  ResolveProxyServerHost :: "nat \<Rightarrow> string \<Rightarrow> error + Addr"
  CreateNetTUN :: "Addr list \<Rightarrow> Addr list \<Rightarrow> int \<Rightarrow> error + nat \<times> nat"
  IpcSet :: "string \<Rightarrow> error option"
  Addr_String :: "Addr \<Rightarrow> string"

text \<open>
  The label \<open>lookup\<close> of init: resolve, and on an error sleep two seconds and jump
  back while \<open>tryTimes < 5\<close>.  \<open>k\<close> counts the calls of the resolver.
\<close>

function lookup ::
  "(nat \<Rightarrow> string \<Rightarrow> error + Addr) \<Rightarrow> string \<Rightarrow> nat \<Rightarrow> nat \<Rightarrow> event list \<Rightarrow>
   (error + Addr) \<times> event list" where
  "lookup resolve host tryTimes k evs =
     (case resolve k host of
        Inr endpointIP \<Rightarrow> (Inr endpointIP, evs @ [EvResolve host])
      | Inl err \<Rightarrow>
          if tryTimes < 5
          then lookup resolve host (tryTimes + 1) (Suc k) (evs @ [EvResolve host, EvSleep 2])
          else (Inl err, evs @ [EvResolve host]))"
  by pat_completeness auto
termination
  by (relation "measure (\<lambda>(resolve, host, tryTimes, k, evs). 5 - tryTimes)") auto

declare lookup.simps [simp del]

text \<open>The local addresses init hands to \<open>CreateNetTUN\<close>: the valid ones.\<close>

definition init_localIPs :: "WireGuard \<Rightarrow> Addr list" where
  "init_localIPs w =
     (if IsValid (localIP w) then [localIP w] else [])
     @ (if IsValid (localIPv6 w) then [localIPv6 w] else [])"

text \<open>
  The second half of init, from \<open>NewWgBind\<close> on: the network stack, the device, the
  configuration (the lines of \<open>uapiConf\<close> joined by line feeds), and the fields set at
  the end.
\<close>

definition init_device ::
  "init_env \<Rightarrow> WireGuard \<Rightarrow> AddrPort \<Rightarrow> event list \<Rightarrow> WireGuard \<times> error option \<times> event list" where
  "init_device env w endpoint evs =
     (let wgBind = NewWgBind endpoint (wg_reserved w);
          localIPs = init_localIPs w;
          evs1 = evs @ [EvCreateNetTUN localIPs (dnsServers w) (mtu w)]
      in case CreateNetTUN env localIPs (dnsServers w) (mtu w) of
           Inl err \<Rightarrow> (w, Some err, evs1)
         | Inr (tunDevice', netStack') \<Rightarrow>
             (let wgDevice' = Device tunDevice' wgBind;
                  conf = strings_Join (uapiConf w) [CHR 0x0A];
                  evs2 = evs1 @ [EvIpcSet conf]
              in case IpcSet env conf of
                   Some err \<Rightarrow> (w, Some err, evs2)
                 | None \<Rightarrow>
                     (w\<lparr>bind := Some wgBind, tunDevice := Some tunDevice',
                        netStack := Some netStack', wgDevice := Some wgDevice',
                        uapiConf := [], dnsServers := [], wg_reserved := None\<rparr>,
                      None, evs2)))"

text \<open>
  \<open>(*WireGuard).init\<close>: the outbound after the call, the error, the events.  The
  line \<open>endpoint=...\<close> is appended to \<open>uapiConf\<close> once the host is resolved.
\<close>

definition WireGuard_init :: "init_env \<Rightarrow> WireGuard \<Rightarrow> WireGuard \<times> error option \<times> event list" where
  "WireGuard_init env w =
     (case net_SplitHostPort (base_addr (base w)) of
        (host, port, _) \<Rightarrow>
          (case lookup (ResolveProxyServerHost env) host 0 0 [] of
             (Inl err, evs) \<Rightarrow>
               (w, Some (ErrorfW (''parse server endpoint ['' @ base_addr (base w)
                                   @ ''] failure, cause: '') err), evs)
           | (Inr endpointIP, evs) \<Rightarrow>
               (let p = strconv_ParseUint16 port;
                    endpoint = (endpointIP, word_of_nat p)
                in init_device env
                     (w\<lparr>uapiConf := uapiConf w
                           @ [''endpoint='' @ AddrPort_String (Addr_String env) endpoint]\<rparr>)
                     endpoint evs)))"

text \<open>\<open>(*WireGuard).up\<close>: init runs once, and its error is kept.\<close>

definition WireGuard_up :: "init_env \<Rightarrow> WireGuard \<Rightarrow> WireGuard \<times> event list" where
  "WireGuard_up env w =
     (if up_done w then (w, [])
      else (case WireGuard_init env w of
              (w', err, evs) \<Rightarrow> (w'\<lparr>up_done := True, upErr := err\<rparr>, evs)))"

text \<open>The number of calls of the resolver among the events of a call.\<close>

fun is_EvResolve :: "event \<Rightarrow> bool" where
  "is_EvResolve (EvResolve host) = True"
| "is_EvResolve _ = False"

definition resolve_attempts :: "event list \<Rightarrow> nat" where
  "resolve_attempts evs = length (filter is_EvResolve evs)"

text \<open>The host init resolves and the port of the endpoint, read from the address of \<open>base\<close>.\<close>

definition init_host :: "WireGuard \<Rightarrow> string" where
  "init_host w = fst (net_SplitHostPort (base_addr (base w)))"

definition init_port :: "WireGuard \<Rightarrow> 16 word" where
  "init_port w =
     word_of_nat (strconv_ParseUint16 (fst (snd (net_SplitHostPort (base_addr (base w))))))"

section \<open>Concrete inputs\<close>

definition ep_ex :: AddrPort where
  "ep_ex = (Addr4 192 0 2 1, 51820)"

definition dial_ok :: "AddrPort \<Rightarrow> error + nat" where
  "dial_ok ap = Inr 7"

definition dial_unreachable :: "AddrPort \<Rightarrow> error + nat" where
  "dial_unreachable ap = Inl (OpError ENETUNREACH)"

definition rd_second_fails :: "nat \<Rightarrow> nat \<Rightarrow> byte list \<Rightarrow> byte list \<times> int \<times> error option" where
  "rd_second_fails h i b =
     (if i = 0 then ([4, 1, 2, 3, 9], 5, None) else (b, 0, Some (OpError (Errno 104))))"

definition os_ex :: os_env where
  "os_ex =
     \<lparr>GOOS_linux = True, srcControlSize = 40,
      getListenIP = (\<lambda>network iface. Inr (if network = ''udp4'' then ''0.0.0.0'' else ''[::]'')),
      ListenPacket = (\<lambda>k socks fns network address.
                        if network = ''udp4''
                        then (if 4 \<in> set socks then Inl (OpError EADDRINUSE) else Inr 4)
                        else (if 6 \<in> set socks then Inl (OpError EADDRINUSE) else Inr 6)),
      ResolveUDPAddr = (\<lambda>c. Inr 51820),
      UDPConn_Close = (\<lambda>c. None),
      setSrcControl = (\<lambda>oob ep. []),
      WriteBatch = (\<lambda>k pc msgs. (length msgs, None)),
      WriteMsgUDP = (\<lambda>k c buf oob ua. None),
      ReadBatch = (\<lambda>pc msgs. (msgs, 0, None)),
      ReadMsgUDP = (\<lambda>c buf oob. (buf, oob, 0, 0, None, Some ErrClosed))\<rparr>"

definition std_ex :: StdNetBind where
  "std_ex = NewStdNetBind [] [] (Some [1, 2, 3])"

definition std_open_ex :: StdNetBind where
  "std_open_ex = std_ex\<lparr>ipv4PC := Some 4, ipv4 := Some 4, ipv6PC := Some 6, ipv6 := Some 6\<rparr>"

text \<open>
  Two more systems: one without IPv6, whose \<open>udp6\<close> listen fails with
  \<open>EAFNOSUPPORT\<close>, and one whose \<open>udp6\<close> listen finds the port taken at the first
  attempt of an Open, and free afterwards.
\<close>

definition os_v4only :: os_env where
  "os_v4only =
     os_ex\<lparr>ListenPacket := (\<lambda>k socks fns network address.
                if network = ''udp4''
                then (if 4 \<in> set socks then Inl (OpError EADDRINUSE) else Inr 4)
                else Inl (OpError EAFNOSUPPORT))\<rparr>"

definition os_retry :: os_env where
  "os_retry =
     os_ex\<lparr>ListenPacket := (\<lambda>k socks fns network address.
                if network = ''udp4''
                then (if 4 \<in> set socks then Inl (OpError EADDRINUSE) else Inr 4)
                else (if k = 0 \<or> 6 \<in> set socks then Inl (OpError EADDRINUSE) else Inr 6))\<rparr>"

definition parse6_none :: "string \<Rightarrow> error + Addr" where
  "parse6_none s = Inl ParseAddrError"

definition opt_ex :: WireGuardOption where
  "opt_ex =
     \<lparr>opt_Interface = [], opt_RoutingMark = 0, opt_Name = ''wg'', opt_Server = ''example.com'',
      opt_Port = 51820, opt_IP = ''10.0.0.2/32'', opt_IPv6 = [],
      opt_PrivateKey = ''AAAAAAAAAAAAAAAAAAAAAAAAAAAAAAAAAAAAAAAAAAA='',
      opt_PublicKey = ''BBBBBBBBBBBBBBBBBBBBBBBBBBBBBBBBBBBBBBBBBBB='',
      opt_PresharedKey = [], opt_DNS = [], opt_MTU = 0, opt_UDP = True,
      opt_RemoteDnsResolve = False, opt_Reserved = []\<rparr>"

definition w_ex :: WireGuard where
  "w_ex =
     \<lparr>base = \<lparr>base_name = ''wg'', base_addr = ''example.com:51820'', base_udp = True,
              base_iface = [], base_rmark = 0\<rparr>,
      wgDevice = None, tunDevice = None, netStack = None, bind = None,
      localIP = Addr4 10 0 0 2, localIPv6 = AddrZero,
      dnsServers = [AddrZero, AddrZero, Addr4 1 1 1 1, Addr4 8 8 8 8],
      wg_reserved = None,
      uapiConf = [''private_key=0000000000000000000000000000000000000000000000000000000000000000'',
                  ''public_key=0410410410410410410410410410410410410410410410410410410410410410'',
                  ''allowed_ip=0.0.0.0/0''],
      threadId = ''wg-7'', mtu = 1408, up_done = False, upErr = None, remoteDnsResolve = False\<rparr>"

definition env_fifth :: init_env where
  "env_fifth =
     \<lparr>ResolveProxyServerHost = (\<lambda>k host. if k < 4 then Inl (ErrorNew ''no such host'')
                                          else Inr (Addr4 192 0 2 1)),
      CreateNetTUN = (\<lambda>localIPs dns m. Inr (1, 2)),
      IpcSet = (\<lambda>conf. None),
      Addr_String = (\<lambda>ip. ''::'')\<rparr>"

definition env_never :: init_env where
  "env_never =
     \<lparr>ResolveProxyServerHost = (\<lambda>k host. Inl (ErrorNew ''no such host'')),
      CreateNetTUN = (\<lambda>localIPs dns m. Inr (1, 2)),
      IpcSet = (\<lambda>conf. None),
      Addr_String = (\<lambda>ip. ''::'')\<rparr>"

definition sk_ex :: "byte list" where
  "sk_ex = [0, 0, 0, 0, 0, 0, 0, 0, 0, 0, 0, 0, 0, 0, 0, 0, 0, 0, 0, 0, 0, 0, 0, 0, 0, 0, 0, 0,
            0, 0, 0, 0]"

definition pk_ex :: "byte list" where
  "pk_ex = [4, 16, 65, 4, 16, 65, 4, 16, 65, 4, 16, 65, 4, 16, 65, 4, 16, 65, 4, 16, 65,
            4, 16, 65, 4, 16, 65, 4, 16, 65, 4, 16]"

section \<open>Properties\<close>

subsection \<open>Closing the relayed bind\<close>

lemma close_conn_idem:
  "fst (close_conn (fst (close_conn wb))) = fst (close_conn wb)"
  by (cases "wb_conn wb") (auto simp: close_conn_def wgConn_Close_def)

lemma close_conn_done [simp]: "wb_done (fst (close_conn wb)) = wb_done wb"
  by (cases "wb_conn wb") (auto simp: close_conn_def wgConn_Close_def)

text \<open>
  C1 (as amended).  Closing the relayed bind twice.  When the channel \<open>done\<close> of the bind
  exists and is open (the state a first Close leaves on a new bind, as when the engine
  closes a bind before it opens it), the first Close returns nil, the second returns
  \<open>net.ErrClosed\<close> and leaves the bind as the first left it.  On a bind whose \<open>done\<close>
  is still nil (a new bind, opened or not), the first Close only creates the channel: the
  second Close returns nil as well, and the third is the first to fail.
\<close>

theorem WgBind_Close_twice:
  "(wb_done wb = ChanOpen \<longrightarrow>
      fst (snd (WgBind_Close wb)) = None \<and>
      fst (snd (WgBind_Close (fst (WgBind_Close wb)))) = Some ErrClosed \<and>
      fst (WgBind_Close (fst (WgBind_Close wb))) = fst (WgBind_Close wb)) \<and>
   (wb_done wb = ChanNil \<longrightarrow>
      fst (snd (WgBind_Close wb)) = None \<and>
      fst (snd (WgBind_Close (fst (WgBind_Close wb)))) = None \<and>
      fst (snd (WgBind_Close (fst (WgBind_Close (fst (WgBind_Close wb)))))) = Some ErrClosed)"
proof (cases "wb_conn wb")
  case None
  then show ?thesis
    by (simp add: WgBind_Close_def close_conn_def)
next
  case (Some c)
  then show ?thesis
    by (cases "conn_done c") (simp_all add: WgBind_Close_def close_conn_def wgConn_Close_def)
qed

text \<open>C1, at a bind closed once before (\<open>done\<close> open) and at a new bind.\<close>

theorem WgBind_Close_twice_witness:
  "wb_done (fst (WgBind_Close (NewWgBind ep_ex None))) = ChanOpen \<and>
   fst (snd (WgBind_Close (fst (WgBind_Close (NewWgBind ep_ex None))))) = None \<and>
   fst (snd (WgBind_Close (fst (WgBind_Close (fst (WgBind_Close (NewWgBind ep_ex None))))))) = Some ErrClosed \<and>
   wb_done (NewWgBind ep_ex None) = ChanNil \<and>
   fst (snd (WgBind_Close (NewWgBind ep_ex None))) = None"
proof -
  have h1: "wb_done (fst (WgBind_Close (NewWgBind ep_ex None))) = ChanOpen"
    by (simp add: WgBind_Close_def close_conn_def NewWgBind_def)
  have h2: "wb_done (NewWgBind ep_ex None) = ChanNil"
    by (simp add: NewWgBind_def)
  show ?thesis
    using WgBind_Close_twice [of "fst (WgBind_Close (NewWgBind ep_ex None))"]
      WgBind_Close_twice [of "NewWgBind ep_ex None"] h1 h2
    by simp
qed

text \<open>
  C1 as stated fails on a new bind that has been opened: Open succeeds, and both the first
  and the second Close return nil.
\<close>

theorem WgBind_Close_twice_fresh_counterexample:
  "WgBind_Open (NewWgBind ep_ex None) 0 = Inr ([WbReceive], 0) \<and>
   fst (snd (WgBind_Close (NewWgBind ep_ex None))) = None \<and>
   fst (snd (WgBind_Close (fst (WgBind_Close (NewWgBind ep_ex None))))) = None \<and>
   fst (snd (WgBind_Close (fst (WgBind_Close (NewWgBind ep_ex None))))) \<noteq> Some ErrClosed"
  by (simp add: WgBind_Open_def WgBind_Close_def close_conn_def NewWgBind_def)

subsection \<open>Receiving on the relayed bind\<close>

lemma connect_established:
  assumes "connect dial wb = (wb1, Inr c, evs)"
  shows "wb_conn wb1 = Some c \<and> \<not> conn_done c \<and> wb_done wb1 = wb_done wb"
  using assms
  by (auto simp: connect_def live_conn_def Let_def split: option.splits sum.splits if_splits)

lemma receive_loop_read_failure:
  assumes "k < length rest"
    and "\<forall>j<k. snd (snd (rd h (i + j) (rest ! j))) = None"
    and "snd (snd (rd h (i + k) (rest ! k))) = Some e"
    and "i + k < length sizes" and "i + k \<le> length eps"
    and "wb_conn wb = Some c" and "\<not> conn_done c"
  shows "\<exists>r. receive_loop rd wb h packets i rest sizes eps evs = Inr r \<and>
             rr_n r = int (i + k) \<and>
             rr_err r = (if wb_done wb = ChanClosed then Some ErrClosed else None) \<and>
             wb_conn (rr_bind r) = Some (c\<lparr>conn_done := True\<rparr>) \<and>
             wb_done (rr_bind r) = wb_done wb \<and>
             EvConnClose (Conn c) \<in> set (rr_events r)"
  using assms
proof (induction rest arbitrary: i k packets sizes eps evs)
  case Nil
  then show ?case by simp
next
  case (Cons b rest)
  obtain b' sz err where rd: "rd h i b = (b', sz, err)"
    by (cases "rd h i b") auto
  show ?case
  proof (cases k)
    case 0
    with Cons.prems rd have err: "err = Some e" by simp
    from Cons.prems 0 have "\<not> length sizes \<le> i" by simp
    with rd err Cons.prems(6,7) show ?thesis
      by (cases "wb_done wb") (simp_all add: 0 close_conn_def wgConn_Close_def)
  next
    case (Suc k')
    from Cons.prems(2) Suc have "snd (snd (rd h (i + 0) ((b # rest) ! 0))) = None"
      by blast
    with rd have err: "err = None" by simp
    from Cons.prems Suc have bounds: "\<not> length sizes \<le> i" "\<not> length eps \<le> i" by simp_all
    have a1: "k' < length rest" using Cons.prems(1) Suc by simp
    have a2: "\<forall>j<k'. snd (snd (rd h (Suc i + j) (rest ! j))) = None"
    proof (intro allI impI)
      fix j assume "j < k'"
      then have "Suc j < k" using Suc by simp
      with Cons.prems(2) have "snd (snd (rd h (i + Suc j) ((b # rest) ! Suc j))) = None"
        by blast
      then show "snd (snd (rd h (Suc i + j) (rest ! j))) = None" by simp
    qed
    have a3: "snd (snd (rd h (Suc i + k') (rest ! k'))) = Some e"
      using Cons.prems(3) Suc by simp
    have a4: "Suc i + k' < length (sizes[i := sz])" "Suc i + k' \<le> length (eps[i := Some (wb_endpoint wb)])"
      using Cons.prems(4,5) Suc by simp_all
    from Cons.IH [OF a1 a2 a3 a4 Cons.prems(6,7)]
    show ?thesis
      using rd err bounds Suc by simp
  qed
qed

text \<open>
  C4.  Receive on an established connection \<open>c\<close> (connect succeeds): when the reads
  \<open>0 .. k-1\<close> succeed and the read \<open>k\<close> fails, receive closes the connection and
  returns \<open>n = k\<close>, the number of datagrams read before the failure, with a nil error;
  when the bind has been closed (\<open>done\<close> is closed) the error is \<open>net.ErrClosed\<close>.
  (\<open>sizes\<close> and \<open>eps\<close> are long enough for the indices written.)
\<close>

theorem WgBind_receive_read_failure:
  assumes "connect dial wb = (wb1, Inr c, evs)"
    and "k < length packets"
    and "\<forall>j<k. snd (snd (rd (Conn c) j (packets ! j))) = None"
    and "snd (snd (rd (Conn c) k (packets ! k))) = Some e"
    and "k < length sizes" and "k \<le> length eps"
  shows "\<exists>r. WgBind_receive dial rd wb packets sizes eps = Inr r \<and>
             rr_n r = int k \<and>
             rr_err r = (if wb_done wb = ChanClosed then Some ErrClosed else None) \<and>
             wb_conn (rr_bind r) = Some (c\<lparr>conn_done := True\<rparr>) \<and>
             EvConnClose (Conn c) \<in> set (rr_events r)"
proof -
  from connect_established [OF assms(1)]
  have c: "wb_conn wb1 = Some c" "\<not> conn_done c" "wb_done wb1 = wb_done wb" by simp_all
  have "\<exists>r. receive_loop rd wb1 (Conn c) packets 0 packets sizes eps evs = Inr r \<and>
             rr_n r = int (0 + k) \<and>
             rr_err r = (if wb_done wb1 = ChanClosed then Some ErrClosed else None) \<and>
             wb_conn (rr_bind r) = Some (c\<lparr>conn_done := True\<rparr>) \<and>
             wb_done (rr_bind r) = wb_done wb1 \<and>
             EvConnClose (Conn c) \<in> set (rr_events r)"
    by (rule receive_loop_read_failure) (use assms c in simp_all)
  then show ?thesis
    using assms(1) c by (auto simp: WgBind_receive_def)
qed

text \<open>C4 at three buffers, the second read failing on a new connection.\<close>

theorem WgBind_receive_read_failure_witness:
  "\<exists>r. WgBind_receive dial_ok rd_second_fails (NewWgBind ep_ex None)
          [[0, 0, 0, 0, 0], [0, 0, 0, 0, 0], [0, 0, 0, 0, 0]] [0, 0, 0] [None, None, None] = Inr r \<and>
       rr_n r = 1 \<and> rr_err r = None \<and>
       wb_conn (rr_bind r) = Some \<lparr>Conn = 7, conn_done = True\<rparr> \<and>
       EvConnClose 7 \<in> set (rr_events r)"
proof -
  have h1: "connect dial_ok (NewWgBind ep_ex None) =
      ((NewWgBind ep_ex None)\<lparr>wb_conn := Some \<lparr>Conn = 7, conn_done = False\<rparr>\<rparr>,
       Inr \<lparr>Conn = 7, conn_done = False\<rparr>, [EvDial ep_ex])"
    by (simp add: connect_def live_conn_def NewWgBind_def dial_ok_def Let_def)
  show ?thesis
    using WgBind_receive_read_failure [OF h1, of 1
        "[[0, 0, 0, 0, 0], [0, 0, 0, 0, 0], [0, 0, 0, 0, 0]]" rd_second_fails
        "OpError (Errno 104)" "[0, 0, 0]" "[None, None, None]"]
    by (simp add: rd_second_fails_def NewWgBind_def)
qed

lemma WgBind_receive_connect_failure:
  assumes "connect dial wb = (wb1, Inl e, evs)"
  shows "WgBind_receive dial rd wb packets sizes eps =
           Inr \<lparr>rr_bind = wb1, rr_packets = packets, rr_sizes = sizes, rr_eps = eps, rr_n = 0,
                rr_err = (if wb_done wb1 = ChanClosed then Some ErrClosed else None),
                rr_events = evs\<rparr>"
  using assms by (cases "wb_done wb1") (simp_all add: WgBind_receive_def Let_def)

text \<open>
  C5 (the code at the failing input).  A new bind, not closed, whose dial fails with
  \<open>ENETUNREACH\<close>: receive returns \<open>n = 0\<close> and a nil error, and the only event is
  the dial: there is no sleep, because \<open>err\<close> was overwritten with nil before the test
  for a \<open>*wgError\<close>.
\<close>

theorem WgBind_receive_unreachable_no_backoff:
  "WgBind_receive dial_unreachable rd_second_fails (NewWgBind ep_ex None) [[0, 0, 0, 0]] [0] [None] =
     Inr \<lparr>rr_bind = NewWgBind ep_ex None, rr_packets = [[0, 0, 0, 0]], rr_sizes = [0],
          rr_eps = [None], rr_n = 0, rr_err = None, rr_events = [EvDial ep_ex]\<rparr>"
  by (simp add: WgBind_receive_def connect_def live_conn_def NewWgBind_def dial_unreachable_def Let_def)

subsection \<open>Sending on the direct-socket bind\<close>

text \<open>
  C6.  Send on the direct-socket bind, for every bind, endpoint and buffer list: when the
  family of the endpoint is in blackhole mode, Send returns nil and does nothing (no event,
  bind and buffers untouched); otherwise, when the bind has no socket of that family, Send
  returns \<open>EAFNOSUPPORT\<close>.
\<close>

theorem StdNetBind_Send_blackhole_nosocket:
  "((if Is6 (fst endpoint) then blackhole6 s else blackhole4 s) \<longrightarrow>
      StdNetBind_Send os s bufs endpoint = Some (Inr (s, bufs, None, []))) \<and>
   (\<not> (if Is6 (fst endpoint) then blackhole6 s else blackhole4 s) \<longrightarrow>
    (if Is6 (fst endpoint) then ipv6 s else ipv4 s) = None \<longrightarrow>
      StdNetBind_Send os s bufs endpoint = Some (Inr (s, bufs, Some EAFNOSUPPORT, [])))"
  by (simp add: StdNetBind_Send_def Let_def)

text \<open>C6 at an IPv4 endpoint in blackhole mode and at an IPv6 endpoint without a socket.\<close>

theorem StdNetBind_Send_blackhole_nosocket_witness:
  "blackhole4 (std_ex\<lparr>blackhole4 := True\<rparr>) \<and>
   StdNetBind_Send os_ex (std_ex\<lparr>blackhole4 := True\<rparr>) [[1, 0, 0, 0]] (Addr4 192 0 2 1, 51820) =
     Some (Inr (std_ex\<lparr>blackhole4 := True\<rparr>, [[1, 0, 0, 0]], None, [])) \<and>
   \<not> blackhole6 std_ex \<and> ipv6 std_ex = None \<and>
   StdNetBind_Send os_ex std_ex [[1, 0, 0, 0]] (Addr6 1 [], 51820) =
     Some (Inr (std_ex, [[1, 0, 0, 0]], Some EAFNOSUPPORT, []))"
  using StdNetBind_Send_blackhole_nosocket [of "(Addr4 192 0 2 1, 51820)" "std_ex\<lparr>blackhole4 := True\<rparr>" os_ex "[[1, 0, 0, 0]]"]
    StdNetBind_Send_blackhole_nosocket [of "(Addr6 1 [], 51820)" std_ex os_ex "[[1, 0, 0, 0]]"]
  by (simp add: std_ex_def NewStdNetBind_def)

subsection \<open>The reserved bytes\<close>

lemma update3_id:
  fixes b :: "byte list"
  assumes "4 \<le> length b"
  shows "(b[1 := 0, 2 := 0, 3 := 0] = b) = (b ! 1 = 0 \<and> b ! 2 = 0 \<and> b ! 3 = 0)"
proof
  assume eq: "b[1 := 0, 2 := 0, 3 := 0] = b"
  have "b[1 := 0, 2 := 0, 3 := 0] ! 1 = 0" "b[1 := 0, 2 := 0, 3 := 0] ! 2 = 0"
    "b[1 := 0, 2 := 0, 3 := 0] ! 3 = 0"
    using assms by simp_all
  then show "b ! 1 = 0 \<and> b ! 2 = 0 \<and> b ! 3 = 0"
    unfolding eq by simp
next
  assume "b ! 1 = 0 \<and> b ! 2 = 0 \<and> b ! 3 = 0"
  then show "b[1 := 0, 2 := 0, 3 := 0] = b"
    by (metis list_update_id)
qed

text \<open>
  C7 (as amended).  For a reserved marker of three bytes (or none) and a buffer of at least
  four bytes, setReserved of either bind followed by resetReserved of either bind leaves the
  bytes 1 to 3 zero and every other byte as the sender wrote it.  The result is the
  sender's buffer exactly when its bytes 1 to 3 were zero.
\<close>

theorem setReserved_resetReserved:
  assumes "4 \<le> length b"
    and "rsv = None \<or> (\<exists>r. rsv = Some r \<and> length r = 3)"
    and "wb_reserved wb = rsv" and "reserved s = rsv"
  shows "\<exists>b'. WgBind_setReserved wb b = Inr b' \<and> StdNetBind_setReserved s b = Inr b' \<and>
              WgBind_resetReserved b' = b[1 := 0, 2 := 0, 3 := 0] \<and>
              StdNetBind_resetReserved b' = b[1 := 0, 2 := 0, 3 := 0] \<and>
              (WgBind_resetReserved b' = b) = (b ! 1 = 0 \<and> b ! 2 = 0 \<and> b ! 3 = 0)"
proof -
  from assms(2) show ?thesis
  proof
    assume "rsv = None"
    with assms update3_id [OF assms(1)] show ?thesis
      by (simp add: WgBind_setReserved_def StdNetBind_setReserved_def WgBind_resetReserved_def
          StdNetBind_resetReserved_def)
  next
    assume "\<exists>r. rsv = Some r \<and> length r = 3"
    then obtain r where r: "rsv = Some r" "length r = 3" by blast
    have upd: "b[1 := r ! 0, 2 := r ! 1, 3 := r ! 2, 1 := 0, 2 := 0, 3 := 0] = b[1 := 0, 2 := 0, 3 := 0]"
      by (simp add: list_update_swap)
    with assms r update3_id [OF assms(1)] show ?thesis
      by (simp add: WgBind_setReserved_def StdNetBind_setReserved_def WgBind_resetReserved_def
          StdNetBind_resetReserved_def)
  qed
qed

text \<open>C7 at the marker 1, 2, 3 and a buffer whose bytes 1 to 3 are zero.\<close>

theorem setReserved_resetReserved_witness:
  "\<exists>b'. WgBind_setReserved (NewWgBind (Addr4 192 0 2 1, 51820) (Some [1, 2, 3])) [4, 0, 0, 0, 5] = Inr b' \<and>
        StdNetBind_setReserved std_ex [4, 0, 0, 0, 5] = Inr b' \<and>
        WgBind_resetReserved b' = [4, 0, 0, 0, 5] \<and>
        StdNetBind_resetReserved b' = [4, 0, 0, 0, 5]"
  using setReserved_resetReserved [of "[4, 0, 0, 0, 5]" "Some [1, 2, 3]"
      "NewWgBind (Addr4 192 0 2 1, 51820) (Some [1, 2, 3])" std_ex]
  by (simp add: NewWgBind_def std_ex_def NewStdNetBind_def, blast)

text \<open>
  C7 as stated fails for a buffer whose bytes 1 to 3 are not zero: 9, 9, 9 come back as
  0, 0, 0.
\<close>

theorem setReserved_resetReserved_counterexample:
  "WgBind_setReserved (NewWgBind (Addr4 192 0 2 1, 51820) (Some [1, 2, 3])) [4, 9, 9, 9, 5] = Inr [4, 1, 2, 3, 5] \<and>
   WgBind_resetReserved [4, 1, 2, 3, 5] = [4, 0, 0, 0, 5] \<and>
   take 3 (drop 1 [4, 0, 0, 0, 5 :: byte]) \<noteq> take 3 (drop 1 [4, 9, 9, 9, 5])"
  by (simp add: WgBind_setReserved_def WgBind_resetReserved_def NewWgBind_def)

subsection \<open>Opening and closing the direct-socket bind\<close>

lemma listenNet_cong:
  assumes "interfaceName s' = interfaceName s" and "controlFns s' = controlFns s"
  shows "listenNet os k socks s' network port = listenNet os k socks s network port"
  unfolding listenNet_def assms ..

lemma listenNet_cases:
  assumes "\<forall>k socks fns network address c.
             ListenPacket os k socks fns network address = Inr c \<longrightarrow> c \<notin> set socks"
    and "\<forall>c e. ResolveUDPAddr os c = Inl e \<longrightarrow>
                 \<not> errors_Is e EAFNOSUPPORT \<and> \<not> errors_Is e EADDRINUSE"
    and "listenNet os k socks s network port = (conn, port', err, socks')"
  shows "(\<exists>c. conn = Some c \<and> err = None \<and> socks' = c # socks \<and> c \<notin> set socks) \<or>
         (conn = None \<and> err \<noteq> None \<and>
          (socks' = socks \<or> (fatal err \<noteq> None \<and> \<not> err_Is err EADDRINUSE)))"
proof (cases "getListenIP os network (interfaceName s)")
  case (Inl e)
  with assms(3) show ?thesis by (auto simp: listenNet_def)
next
  case ip: (Inr listenIP)
  show ?thesis
  proof (cases "ListenPacket os k socks (controlFns s) network (listenIP @ '':'' @ Itoa port)")
    case (Inl e)
    with assms(3) ip show ?thesis by (auto simp: listenNet_def)
  next
    case (Inr c)
    with assms(1) have c: "c \<notin> set socks" by blast
    show ?thesis
    proof (cases "ResolveUDPAddr os c")
      case e: (Inl e)
      with assms(2) have "\<not> errors_Is e EAFNOSUPPORT" "\<not> errors_Is e EADDRINUSE" by blast+
      with assms(3) ip Inr e show ?thesis by (auto simp: listenNet_def fatal_def err_Is_def)
    next
      case p: (Inr p)
      with assms(3) ip Inr c show ?thesis by (auto simp: listenNet_def)
    qed
  qed
qed

lemma release_Cons: "c \<notin> set socks \<Longrightarrow> release c (c # socks) = socks"
  by (simp add: release_def)

lemma Open_finish_fields:
  "interfaceName (fst (Open_finish os s v4 v6 p)) = interfaceName s"
  "controlFns (fst (Open_finish os s v4 v6 p)) = controlFns s"
  "ipv4 (fst (Open_finish os s v4 v6 p)) = (case v4 of None \<Rightarrow> ipv4 s | Some c \<Rightarrow> Some c)"
  "ipv6 (fst (Open_finish os s v4 v6 p)) = (case v6 of None \<Rightarrow> ipv6 s | Some c \<Rightarrow> Some c)"
  by (simp_all add: Open_finish_def Let_def split: option.splits)

lemma Open_finish_result:
  "snd (Open_finish os s' v4 v6 p) = snd (Open_finish os s v4 v6 p)"
  by (simp add: Open_finish_def Let_def split: option.splits)

lemma Open_finish_success:
  "snd (Open_finish os s v4 v6 p) = Inr (fns, port) \<Longrightarrow> v4 \<noteq> None \<or> v6 \<noteq> None"
  by (auto simp: Open_finish_def Let_def split: option.splits)

lemma Open_again_fatal4:
  assumes "listenNet os tries socks s ''udp4'' (uint uport) = (v4conn, port4, err4, socks4)"
    and "fatal err4 = Some e"
  shows "Open_again os socks s uport tries evs = Inr (s, Inl e, evs, socks4)"
  using assms by (subst Open_again.simps) simp

lemma Open_again_retry:
  assumes "listenNet os tries socks s ''udp4'' (uint uport) = (v4conn, port4, err4, socks4)"
    and "fatal err4 = None"
    and "listenNet os tries socks4 s ''udp6'' port4 = (v6conn, port, err, socks6)"
    and "uport = 0 \<and> err_Is err EADDRINUSE \<and> tries < 100"
    and "r = (case v4conn of
                None \<Rightarrow> Inl NilDereference
              | Some c4 \<Rightarrow>
                  Open_again os (release c4 socks6) s uport (Suc tries) (evs @ [EvUDPClose c4]))"
  shows "Open_again os socks s uport tries evs = r"
  using assms(1-4) unfolding assms(5) by (subst Open_again.simps) simp

lemma Open_again_last:
  assumes "listenNet os tries socks s ''udp4'' (uint uport) = (v4conn, port4, err4, socks4)"
    and "fatal err4 = None"
    and "listenNet os tries socks4 s ''udp6'' port4 = (v6conn, port, err, socks6)"
    and "\<not> (uport = 0 \<and> err_Is err EADDRINUSE \<and> tries < 100)"
  shows "Open_again os socks s uport tries evs =
           (case fatal err of
              Some e \<Rightarrow>
                (case v4conn of
                   None \<Rightarrow> Inl NilDereference
                 | Some c4 \<Rightarrow> Inr (s, Inl e, evs @ [EvUDPClose c4], release c4 socks6))
            | None \<Rightarrow>
                (case Open_finish os s v4conn v6conn port of
                   (s6, res) \<Rightarrow> Inr (s6, res, evs, socks6)))"
  by (subst Open_again.simps) (simp add: assms)

lemma Open_again_opened:
  assumes fresh: "\<forall>k socks fns network address c.
             ListenPacket os k socks fns network address = Inr c \<longrightarrow> c \<notin> set socks"
    and resolve: "\<forall>c e. ResolveUDPAddr os c = Inl e \<longrightarrow>
                 \<not> errors_Is e EAFNOSUPPORT \<and> \<not> errors_Is e EADDRINUSE"
    and "Open_again os socks s uport tries evs = Inr (s1, Inr (fns, aport), evs1, socks1)"
  shows "\<exists>v4 v6 p.
           Open_finish os s v4 v6 p = (s1, Inr (fns, aport)) \<and>
           socks1 = (case v6 of None \<Rightarrow> [] | Some c \<Rightarrow> [c]) @
                    (case v4 of None \<Rightarrow> [] | Some c \<Rightarrow> [c]) @ socks \<and>
           (\<forall>c. v4 = Some c \<longrightarrow> c \<notin> set socks) \<and>
           (\<forall>c. v6 = Some c \<longrightarrow> c \<notin> set socks \<and> v4 \<noteq> Some c) \<and>
           (\<forall>s'. interfaceName s' = interfaceName s \<longrightarrow> controlFns s' = controlFns s \<longrightarrow>
                 Open_again os socks s' uport tries evs =
                   (case Open_finish os s' v4 v6 p of (s6, res) \<Rightarrow> Inr (s6, res, evs1, socks1)))"
  using assms(3)
proof (induction n \<equiv> "100 - tries" arbitrary: tries evs rule: less_induct)
  case less
  obtain v4conn port4 err4 socks4 where l4:
    "listenNet os tries socks s ''udp4'' (uint uport) = (v4conn, port4, err4, socks4)"
    by (cases "listenNet os tries socks s ''udp4'' (uint uport)") auto
  note c4 = listenNet_cases [OF fresh resolve l4]
  show ?case
  proof (cases "fatal err4")
    case (Some e)
    from Open_again_fatal4 [OF l4 Some] less.prems show ?thesis by simp
  next
    case None
    obtain v6conn port err socks6 where l6:
      "listenNet os tries socks4 s ''udp6'' port4 = (v6conn, port, err, socks6)"
      by (cases "listenNet os tries socks4 s ''udp6'' port4") auto
    note c6 = listenNet_cases [OF fresh resolve l6]
    from c4 None have v4: "(\<exists>c. v4conn = Some c \<and> socks4 = c # socks \<and> c \<notin> set socks) \<or>
                           (v4conn = None \<and> socks4 = socks)"
      by auto
    have l4': "listenNet os tries socks s' ''udp4'' (uint uport) = (v4conn, port4, err4, socks4)"
      and l6': "listenNet os tries socks4 s' ''udp6'' port4 = (v6conn, port, err, socks6)"
      if "interfaceName s' = interfaceName s" "controlFns s' = controlFns s" for s'
      using l4 l6 listenNet_cong [OF that] by simp_all
    show ?thesis
    proof (cases "uport = 0 \<and> err_Is err EADDRINUSE \<and> tries < 100")
      case True
      with c6 have s6: "socks6 = socks4" by (auto simp: err_Is_def)
      show ?thesis
      proof (cases v4conn)
        case N: None
        from Open_again_retry [OF l4 None l6 True refl, of evs] N less.prems
        show ?thesis by simp
      next
        case (Some c)
        with v4 s6 have rel: "release c socks6 = socks" by (auto simp: release_Cons)
        have step: "Open_again os socks s' uport tries evs =
                    Open_again os socks s' uport (Suc tries) (evs @ [EvUDPClose c])"
          if "interfaceName s' = interfaceName s" "controlFns s' = controlFns s" for s'
          using Open_again_retry [OF l4' [OF that] None l6' [OF that] True refl, of evs] Some rel
          by simp
        from step [of s] less.prems
        have again: "Open_again os socks s uport (Suc tries) (evs @ [EvUDPClose c]) =
                Inr (s1, Inr (fns, aport), evs1, socks1)"
          by simp
        from True have lt: "100 - Suc tries < 100 - tries" by arith
        from less.hyps [OF lt again]
        obtain v4 v6 p where
          "Open_finish os s v4 v6 p = (s1, Inr (fns, aport))"
          "socks1 = (case v6 of None \<Rightarrow> [] | Some c \<Rightarrow> [c]) @
                    (case v4 of None \<Rightarrow> [] | Some c \<Rightarrow> [c]) @ socks"
          "\<forall>c. v4 = Some c \<longrightarrow> c \<notin> set socks"
          "\<forall>c. v6 = Some c \<longrightarrow> c \<notin> set socks \<and> v4 \<noteq> Some c"
          "\<forall>s'. interfaceName s' = interfaceName s \<longrightarrow> controlFns s' = controlFns s \<longrightarrow>
                 Open_again os socks s' uport (Suc tries) (evs @ [EvUDPClose c]) =
                   (case Open_finish os s' v4 v6 p of (s6, res) \<Rightarrow> Inr (s6, res, evs1, socks1))"
          by blast
        with step show ?thesis by (intro exI [of _ v4] exI [of _ v6] exI [of _ p]) simp
      qed
    next
      case False
      note last = Open_again_last [OF l4 None l6 False, of evs]
      show ?thesis
      proof (cases "fatal err")
        case (Some e)
        with last less.prems show ?thesis by (cases v4conn) simp_all
      next
        case N: None
        with c6 have v6: "(\<exists>c. v6conn = Some c \<and> socks6 = c # socks4 \<and> c \<notin> set socks4) \<or>
                          (v6conn = None \<and> socks6 = socks4)"
          by auto
        from last N less.prems
        have f: "Open_finish os s v4conn v6conn port = (s1, Inr (fns, aport))"
          and e: "evs1 = evs" and s: "socks1 = socks6"
          by (simp_all split: prod.splits)
        have "Open_again os socks s' uport tries evs =
                (case Open_finish os s' v4conn v6conn port of
                   (s6, res) \<Rightarrow> Inr (s6, res, evs1, socks1))"
          if "interfaceName s' = interfaceName s" "controlFns s' = controlFns s" for s'
          using Open_again_last [OF l4' [OF that] None l6' [OF that] False, of evs] N e s
          by simp
        moreover from v4 v6 s
        have "socks1 = (case v6conn of None \<Rightarrow> [] | Some c \<Rightarrow> [c]) @
                       (case v4conn of None \<Rightarrow> [] | Some c \<Rightarrow> [c]) @ socks"
          "\<forall>c. v4conn = Some c \<longrightarrow> c \<notin> set socks"
          "\<forall>c. v6conn = Some c \<longrightarrow> c \<notin> set socks \<and> v4conn \<noteq> Some c"
          by auto
        ultimately show ?thesis
          using f by (intro exI [of _ v4conn] exI [of _ v6conn] exI [of _ port]) simp
      qed
    qed
  qed
qed


lemma StdNetBind_Close_result:
  "fst (snd (StdNetBind_Close os socks s)) =
     (case (case ipv4 s of None \<Rightarrow> None | Some c \<Rightarrow> UDPConn_Close os c) of
        Some e \<Rightarrow> Some e
      | None \<Rightarrow> (case ipv6 s of None \<Rightarrow> None | Some c \<Rightarrow> UDPConn_Close os c))"
  "fst (snd (snd (StdNetBind_Close os socks s))) =
     (case ipv4 s of None \<Rightarrow> [] | Some c \<Rightarrow> [EvUDPClose c]) @
     (case ipv6 s of None \<Rightarrow> [] | Some c \<Rightarrow> [EvUDPClose c])"
  "snd (snd (snd (StdNetBind_Close os socks s))) =
     (case ipv6 s of
        None \<Rightarrow> (case ipv4 s of None \<Rightarrow> socks | Some c \<Rightarrow> release c socks)
      | Some c6 \<Rightarrow> release c6 (case ipv4 s of None \<Rightarrow> socks | Some c \<Rightarrow> release c socks))"
  by (simp_all add: StdNetBind_Close_def Let_def split: option.splits)

lemma StdNetBind_Close_fields:
  "ipv4 (fst (StdNetBind_Close os socks s)) = None"
  "ipv6 (fst (StdNetBind_Close os socks s)) = None"
  "blackhole4 (fst (StdNetBind_Close os socks s)) = False"
  "blackhole6 (fst (StdNetBind_Close os socks s)) = False"
  "interfaceName (fst (StdNetBind_Close os socks s)) = interfaceName s"
  "controlFns (fst (StdNetBind_Close os socks s)) = controlFns s"
  by (simp_all add: StdNetBind_Close_def Let_def split: option.splits)

text \<open>
  C8.  Open on a bind that is open (it holds a socket) fails with
  \<open>ErrBindAlreadyOpen\<close> and changes nothing.  Close on an open bind followed by Open
  succeeds: let a bind be opened by an Open that succeeded, from the open sockets
  \<open>socks0\<close>, with whichever sockets the system granted (both families, or one, at the
  first attempt or after retries on \<open>EADDRINUSE\<close>).  Then the bind holds a socket, and
  a second Open fails with \<open>ErrBindAlreadyOpen\<close>.  Close closes each socket the bind
  holds (one \<open>EvUDPClose\<close> each, IPv4 first), returns the first error of the two closes,
  leaves the bind with no socket and with both blackhole flags reset, and leaves open
  exactly the sockets \<open>socks0\<close> that were open before the bind was opened.  The Open
  that follows succeeds, with the same receive functions, port, events and sockets as the
  first.  The two hypotheses on the system: a listen never returns the handle of a socket
  that is open, and \<open>ResolveUDPAddr\<close> on the local address of a new socket does not
  fail with \<open>EAFNOSUPPORT\<close> or \<open>EADDRINUSE\<close> (after such a failure
  \<open>listenNet\<close> leaves its socket open, and Open goes on).
\<close>

theorem StdNetBind_Open_Close:
  assumes "\<forall>k socks fns network address c.
             ListenPacket os k socks fns network address = Inr c \<longrightarrow> c \<notin> set socks"
    and "\<forall>c e. ResolveUDPAddr os c = Inl e \<longrightarrow>
                 \<not> errors_Is e EAFNOSUPPORT \<and> \<not> errors_Is e EADDRINUSE"
    and "StdNetBind_Open os socks0 s0 uport = Inr (s1, Inr (fns, aport), evs, socks1)"
  shows "(\<forall>s socks u. ipv4 s \<noteq> None \<or> ipv6 s \<noteq> None \<longrightarrow>
            StdNetBind_Open os socks s u = Inr (s, Inl ErrBindAlreadyOpen, [], socks)) \<and>
         (ipv4 s1 \<noteq> None \<or> ipv6 s1 \<noteq> None) \<and>
         StdNetBind_Open os socks1 s1 uport = Inr (s1, Inl ErrBindAlreadyOpen, [], socks1) \<and>
         (\<exists>s2 s3.
            StdNetBind_Close os socks1 s1 =
              (s2,
               (case (case ipv4 s1 of None \<Rightarrow> None | Some c \<Rightarrow> UDPConn_Close os c) of
                  Some e \<Rightarrow> Some e
                | None \<Rightarrow> (case ipv6 s1 of None \<Rightarrow> None | Some c \<Rightarrow> UDPConn_Close os c)),
               (case ipv4 s1 of None \<Rightarrow> [] | Some c \<Rightarrow> [EvUDPClose c]) @
               (case ipv6 s1 of None \<Rightarrow> [] | Some c \<Rightarrow> [EvUDPClose c]),
               socks0) \<and>
            ipv4 s2 = None \<and> ipv6 s2 = None \<and> \<not> blackhole4 s2 \<and> \<not> blackhole6 s2 \<and>
            StdNetBind_Open os socks0 s2 uport = Inr (s3, Inr (fns, aport), evs, socks1) \<and>
            ipv4 s3 = ipv4 s1 \<and> ipv6 s3 = ipv6 s1)"
proof -
  from assms(3) have closed0: "ipv4 s0 = None" "ipv6 s0 = None"
    and again: "Open_again os socks0 s0 uport 0 [] = Inr (s1, Inr (fns, aport), evs, socks1)"
    by (auto simp: StdNetBind_Open_def split: if_splits)
  from Open_again_opened [OF assms(1,2) again]
  obtain v4 v6 p where f: "Open_finish os s0 v4 v6 p = (s1, Inr (fns, aport))"
    and socks1: "socks1 = (case v6 of None \<Rightarrow> [] | Some c \<Rightarrow> [c]) @
                          (case v4 of None \<Rightarrow> [] | Some c \<Rightarrow> [c]) @ socks0"
    and n4: "\<forall>c. v4 = Some c \<longrightarrow> c \<notin> set socks0"
    and n6: "\<forall>c. v6 = Some c \<longrightarrow> c \<notin> set socks0 \<and> v4 \<noteq> Some c"
    and cong: "\<forall>s'. interfaceName s' = interfaceName s0 \<longrightarrow> controlFns s' = controlFns s0 \<longrightarrow>
                 Open_again os socks0 s' uport 0 [] =
                   (case Open_finish os s' v4 v6 p of (s6, res) \<Rightarrow> Inr (s6, res, evs, socks1))"
    by blast
  from f have s1: "s1 = fst (Open_finish os s0 v4 v6 p)"
    and res: "snd (Open_finish os s0 v4 v6 p) = Inr (fns, aport)"
    by simp_all
  have i4: "ipv4 s1 = v4" and i6: "ipv6 s1 = v6"
    using closed0 by (simp_all add: s1 Open_finish_fields split: option.splits)
  have names: "interfaceName s1 = interfaceName s0" "controlFns s1 = controlFns s0"
    by (simp_all add: s1 Open_finish_fields)
  from Open_finish_success [OF res] i4 i6 have opened: "ipv4 s1 \<noteq> None \<or> ipv6 s1 \<noteq> None"
    by simp
  have already: "\<forall>s socks u. ipv4 s \<noteq> None \<or> ipv6 s \<noteq> None \<longrightarrow>
            StdNetBind_Open os socks s u = Inr (s, Inl ErrBindAlreadyOpen, [], socks)"
    by (simp add: StdNetBind_Open_def)
  define s2 where "s2 = fst (StdNetBind_Close os socks1 s1)"
  define s3 where "s3 = fst (Open_finish os s2 v4 v6 p)"
  have released: "snd (snd (snd (StdNetBind_Close os socks1 s1))) = socks0"
    using n4 n6 by (auto simp: StdNetBind_Close_result(3) i4 i6 socks1 release_def split: option.splits)
  have close: "StdNetBind_Close os socks1 s1 =
              (s2,
               (case (case ipv4 s1 of None \<Rightarrow> None | Some c \<Rightarrow> UDPConn_Close os c) of
                  Some e \<Rightarrow> Some e
                | None \<Rightarrow> (case ipv6 s1 of None \<Rightarrow> None | Some c \<Rightarrow> UDPConn_Close os c)),
               (case ipv4 s1 of None \<Rightarrow> [] | Some c \<Rightarrow> [EvUDPClose c]) @
               (case ipv6 s1 of None \<Rightarrow> [] | Some c \<Rightarrow> [EvUDPClose c]),
               socks0)"
    using released StdNetBind_Close_result(1,2) [of os socks1 s1]
    by (cases "StdNetBind_Close os socks1 s1") (simp add: s2_def)
  have s2: "ipv4 s2 = None" "ipv6 s2 = None" "\<not> blackhole4 s2" "\<not> blackhole6 s2"
    "interfaceName s2 = interfaceName s0" "controlFns s2 = controlFns s0"
    by (simp_all add: s2_def StdNetBind_Close_fields names)
  have "snd (Open_finish os s2 v4 v6 p) = Inr (fns, aport)"
    using Open_finish_result [of os s2 v4 v6 p s0] res by simp
  then have "Open_finish os s2 v4 v6 p = (s3, Inr (fns, aport))"
    by (cases "Open_finish os s2 v4 v6 p") (simp add: s3_def)
  with cong s2 have reopen: "StdNetBind_Open os socks0 s2 uport = Inr (s3, Inr (fns, aport), evs, socks1)"
    by (simp add: StdNetBind_Open_def)
  have s3: "ipv4 s3 = ipv4 s1" "ipv6 s3 = ipv6 s1"
    using s2(1,2) by (simp_all add: s3_def i4 i6 Open_finish_fields split: option.splits)
  from already opened have "StdNetBind_Open os socks1 s1 uport = Inr (s1, Inl ErrBindAlreadyOpen, [], socks1)"
    by blast
  with already opened close s2(1-4) reopen s3 show ?thesis by blast
qed

lemma os_fresh:
  "\<forall>k socks fns network address c.
     ListenPacket os_ex k socks fns network address = Inr c \<longrightarrow> c \<notin> set socks"
  "\<forall>k socks fns network address c.
     ListenPacket os_v4only k socks fns network address = Inr c \<longrightarrow> c \<notin> set socks"
  "\<forall>k socks fns network address c.
     ListenPacket os_retry k socks fns network address = Inr c \<longrightarrow> c \<notin> set socks"
  by (auto simp: os_ex_def os_v4only_def os_retry_def split: if_splits)

lemma os_resolve:
  "\<forall>c e. ResolveUDPAddr os_ex c = Inl e \<longrightarrow>
          \<not> errors_Is e EAFNOSUPPORT \<and> \<not> errors_Is e EADDRINUSE"
  "\<forall>c e. ResolveUDPAddr os_v4only c = Inl e \<longrightarrow>
          \<not> errors_Is e EAFNOSUPPORT \<and> \<not> errors_Is e EADDRINUSE"
  "\<forall>c e. ResolveUDPAddr os_retry c = Inl e \<longrightarrow>
          \<not> errors_Is e EAFNOSUPPORT \<and> \<not> errors_Is e EADDRINUSE"
  by (simp_all add: os_ex_def os_v4only_def os_retry_def)

lemma listenNet_os_ex:
  "listenNet os_ex k socks s ''udp4'' p =
     (if 4 \<in> set socks then (None, 0, Some (OpError EADDRINUSE), socks)
      else (Some 4, 51820, None, 4 # socks))"
  "listenNet os_ex k socks s ''udp6'' p =
     (if 6 \<in> set socks then (None, 0, Some (OpError EADDRINUSE), socks)
      else (Some 6, 51820, None, 6 # socks))"
  by (simp_all add: listenNet_def os_ex_def)

lemma listenNet_os_v4only:
  "listenNet os_v4only k socks s ''udp4'' p =
     (if 4 \<in> set socks then (None, 0, Some (OpError EADDRINUSE), socks)
      else (Some 4, 51820, None, 4 # socks))"
  "listenNet os_v4only k socks s ''udp6'' p = (None, 0, Some (OpError EAFNOSUPPORT), socks)"
  by (simp_all add: listenNet_def os_ex_def os_v4only_def)

lemma listenNet_os_retry:
  "listenNet os_retry k socks s ''udp4'' p =
     (if 4 \<in> set socks then (None, 0, Some (OpError EADDRINUSE), socks)
      else (Some 4, 51820, None, 4 # socks))"
  "listenNet os_retry k socks s ''udp6'' p =
     (if k = 0 \<or> 6 \<in> set socks then (None, 0, Some (OpError EADDRINUSE), socks)
      else (Some 6, 51820, None, 6 # socks))"
  by (simp_all add: listenNet_def os_ex_def os_retry_def)

lemma Open_os_ex:
  "StdNetBind_Open os_ex [] (std_ex\<lparr>blackhole4 := True\<rparr>) 51820 =
     Inr (std_open_ex\<lparr>blackhole4 := True\<rparr>,
          Inr ([ReceiveIPv4 (Some 4) 4, ReceiveIPv6 (Some 6) 6], 51820), [], [6, 4])"
  by (simp add: StdNetBind_Open_def Open_again.simps listenNet_os_ex fatal_def err_Is_def
       Open_finish_def Let_def)
     (simp add: std_open_ex_def std_ex_def NewStdNetBind_def os_ex_def)

lemma Open_os_v4only:
  "StdNetBind_Open os_v4only [] std_ex 51820 =
     Inr (std_ex\<lparr>ipv4PC := Some 4, ipv4 := Some 4\<rparr>, Inr ([ReceiveIPv4 (Some 4) 4], 0), [], [4])"
  by (simp add: StdNetBind_Open_def Open_again.simps listenNet_os_v4only fatal_def err_Is_def
       Open_finish_def Let_def)
     (simp add: std_ex_def NewStdNetBind_def os_ex_def os_v4only_def)

lemma Open_os_retry:
  "StdNetBind_Open os_retry [] std_ex 0 =
     Inr (std_open_ex, Inr ([ReceiveIPv4 (Some 4) 4, ReceiveIPv6 (Some 6) 6], 51820),
          [EvUDPClose 4], [6, 4])"
  by (simp add: StdNetBind_Open_def Open_again.simps listenNet_os_retry fatal_def err_Is_def
       Open_finish_def Let_def release_def)
     (simp add: std_open_ex_def std_ex_def NewStdNetBind_def os_ex_def os_retry_def)

lemma Close_os_ex:
  "StdNetBind_Close os_ex [6, 4] (std_open_ex\<lparr>blackhole4 := True\<rparr>) =
     (std_ex, None, [EvUDPClose 4, EvUDPClose 6], [])"
  by (simp add: StdNetBind_Close_def Let_def release_def std_open_ex_def std_ex_def
       NewStdNetBind_def os_ex_def)

lemma Close_os_v4only:
  "StdNetBind_Close os_v4only [4] (std_ex\<lparr>ipv4PC := Some 4, ipv4 := Some 4\<rparr>) =
     (std_ex, None, [EvUDPClose 4], [])"
  by (simp add: StdNetBind_Close_def Let_def release_def std_ex_def NewStdNetBind_def
       os_ex_def os_v4only_def)

lemma Close_os_retry:
  "StdNetBind_Close os_retry [6, 4] std_open_ex =
     (std_ex, None, [EvUDPClose 4, EvUDPClose 6], [])"
  by (simp add: StdNetBind_Close_def Let_def release_def std_open_ex_def std_ex_def
       NewStdNetBind_def os_ex_def os_retry_def)

lemma Reopen_os_ex:
  "StdNetBind_Open os_ex [] std_ex 51820 =
     Inr (std_open_ex, Inr ([ReceiveIPv4 (Some 4) 4, ReceiveIPv6 (Some 6) 6], 51820), [], [6, 4])"
  by (simp add: StdNetBind_Open_def Open_again.simps listenNet_os_ex fatal_def err_Is_def
       Open_finish_def Let_def)
     (simp add: std_open_ex_def std_ex_def NewStdNetBind_def os_ex_def)

text \<open>
  C8 at three binds: one opened on port 51820 with both sockets while its IPv4 blackhole
  flag is set; one opened on a system without IPv6 (the port that Open returns is then
  the 0 of the failed \<open>udp6\<close> listen); one opened on port 0 after a retry on
  \<open>EADDRINUSE\<close>.  Each is open, refuses a second Open, is closed with its sockets
  released, and is opened again.
\<close>

theorem StdNetBind_Open_Close_witness:
  "StdNetBind_Open os_ex [] (std_ex\<lparr>blackhole4 := True\<rparr>) 51820 =
     Inr (std_open_ex\<lparr>blackhole4 := True\<rparr>,
          Inr ([ReceiveIPv4 (Some 4) 4, ReceiveIPv6 (Some 6) 6], 51820), [], [6, 4]) \<and>
   StdNetBind_Open os_ex [6, 4] (std_open_ex\<lparr>blackhole4 := True\<rparr>) 51820 =
     Inr (std_open_ex\<lparr>blackhole4 := True\<rparr>, Inl ErrBindAlreadyOpen, [], [6, 4]) \<and>
   StdNetBind_Close os_ex [6, 4] (std_open_ex\<lparr>blackhole4 := True\<rparr>) =
     (std_ex, None, [EvUDPClose 4, EvUDPClose 6], []) \<and>
   StdNetBind_Open os_ex [] std_ex 51820 =
     Inr (std_open_ex, Inr ([ReceiveIPv4 (Some 4) 4, ReceiveIPv6 (Some 6) 6], 51820), [], [6, 4]) \<and>
   StdNetBind_Open os_v4only [] std_ex 51820 =
     Inr (std_ex\<lparr>ipv4PC := Some 4, ipv4 := Some 4\<rparr>, Inr ([ReceiveIPv4 (Some 4) 4], 0), [], [4]) \<and>
   StdNetBind_Open os_v4only [4] (std_ex\<lparr>ipv4PC := Some 4, ipv4 := Some 4\<rparr>) 51820 =
     Inr (std_ex\<lparr>ipv4PC := Some 4, ipv4 := Some 4\<rparr>, Inl ErrBindAlreadyOpen, [], [4]) \<and>
   StdNetBind_Close os_v4only [4] (std_ex\<lparr>ipv4PC := Some 4, ipv4 := Some 4\<rparr>) =
     (std_ex, None, [EvUDPClose 4], []) \<and>
   StdNetBind_Open os_retry [] std_ex 0 =
     Inr (std_open_ex, Inr ([ReceiveIPv4 (Some 4) 4, ReceiveIPv6 (Some 6) 6], 51820),
          [EvUDPClose 4], [6, 4]) \<and>
   StdNetBind_Open os_retry [6, 4] std_open_ex 0 =
     Inr (std_open_ex, Inl ErrBindAlreadyOpen, [], [6, 4]) \<and>
   StdNetBind_Close os_retry [6, 4] std_open_ex =
     (std_ex, None, [EvUDPClose 4, EvUDPClose 6], [])"
proof -
  note both = StdNetBind_Open_Close [OF os_fresh(1) os_resolve(1) Open_os_ex]
  note single = StdNetBind_Open_Close [OF os_fresh(2) os_resolve(2) Open_os_v4only]
  note retried = StdNetBind_Open_Close [OF os_fresh(3) os_resolve(3) Open_os_retry]
  from both have a: "StdNetBind_Open os_ex [6, 4] (std_open_ex\<lparr>blackhole4 := True\<rparr>) 51820 =
     Inr (std_open_ex\<lparr>blackhole4 := True\<rparr>, Inl ErrBindAlreadyOpen, [], [6, 4])"
    by blast
  from single have b: "StdNetBind_Open os_v4only [4] (std_ex\<lparr>ipv4PC := Some 4, ipv4 := Some 4\<rparr>) 51820 =
     Inr (std_ex\<lparr>ipv4PC := Some 4, ipv4 := Some 4\<rparr>, Inl ErrBindAlreadyOpen, [], [4])"
    by blast
  from retried have c: "StdNetBind_Open os_retry [6, 4] std_open_ex 0 =
     Inr (std_open_ex, Inl ErrBindAlreadyOpen, [], [6, 4])"
    by blast
  from both obtain s2 s3 where
    "fst (StdNetBind_Close os_ex [6, 4] (std_open_ex\<lparr>blackhole4 := True\<rparr>)) = s2"
    "StdNetBind_Open os_ex [] s2 51820 =
       Inr (s3, Inr ([ReceiveIPv4 (Some 4) 4, ReceiveIPv6 (Some 6) 6], 51820), [], [6, 4])"
    "ipv4 s3 = ipv4 (std_open_ex\<lparr>blackhole4 := True\<rparr>)"
    by force
  with Close_os_ex Reopen_os_ex have d: "StdNetBind_Open os_ex [] std_ex 51820 =
     Inr (std_open_ex, Inr ([ReceiveIPv4 (Some 4) 4, ReceiveIPv6 (Some 6) 6], 51820), [], [6, 4])"
    by simp
  from Open_os_ex a Close_os_ex d Open_os_v4only b Close_os_v4only Open_os_retry c Close_os_retry
  show ?thesis by simp
qed

text \<open>
  What the release of the sockets by Close is for: on the same system and port, an Open
  made while the two sockets are still open fails with \<open>EADDRINUSE\<close>.
\<close>

lemma StdNetBind_Open_sockets_held:
  "StdNetBind_Open os_ex [6, 4] std_ex 51820 =
     Inr (std_ex, Inl (OpError EADDRINUSE), [], [6, 4])"
  by (simp add: StdNetBind_Open_def Open_again.simps listenNet_os_ex fatal_def
       std_ex_def NewStdNetBind_def)


subsection \<open>The message pools of the direct-socket bind\<close>

lemma makeReceiveIPv6_pools:
  assumes "makeReceiveIPv6 os s pc conn bufs sizes eps = Inr r"
  shows "ipv6MsgsPool (sr_bind r) = ipv6MsgsPool s \<and> ipv4MsgsPool (sr_bind r) \<noteq> []"
  using assms
  by (auto simp: makeReceiveIPv6_def ipv4MsgsPool_Get_def split: list.splits sum.splits prod.splits)

text \<open>
  C10 (the code at the failing input).  An IPv6 receive on an open bind whose pools are
  empty: the message array is made for, and put back into, the IPv4 message pool; the IPv6
  message pool stays empty.  (The array is of the one message type both pools hold, so the
  type assertion on the pooled value does not fail.)
\<close>

theorem makeReceiveIPv6_takes_ipv4MsgsPool:
  "makeReceiveIPv6 os_ex std_open_ex (Some 6) 6 [] [] [] =
     Inr \<lparr>sr_bind = std_open_ex\<lparr>ipv4MsgsPool := [MsgsPool_New os_ex]\<rparr>, sr_bufs = [], sr_sizes = [],
          sr_eps = [], sr_n = 0, sr_err = None, sr_events = [EvReadBatch 6]\<rparr> \<and>
   ipv6MsgsPool (std_open_ex\<lparr>ipv4MsgsPool := [MsgsPool_New os_ex]\<rparr>) = []"
proof -
  have os: "GOOS_linux os_ex" "\<And>msgs. ReadBatch os_ex 6 msgs = (msgs, 0, None)"
    by (simp_all add: os_ex_def)
  have pool: "ipv4MsgsPool std_open_ex = []" "ipv6MsgsPool std_open_ex = []"
    by (simp_all add: std_open_ex_def std_ex_def NewStdNetBind_def)
  show ?thesis
    by (simp add: makeReceiveIPv6_def ipv4MsgsPool_Get_def receive_body_def os pool Let_def)
qed

subsection \<open>Bring-up of the outbound\<close>

lemma NewWireGuard_opt_ex: "NewWireGuard parse6_none 7 opt_ex = Inr w_ex"
  by (simp add: NewWireGuard_def uapi_keys_def decode_reserved_def parse_local_def
      parse_dns_servers_def opt_ex_def w_ex_def base64_DecodeString_def b64_value_def
      hex_EncodeToString_def hexdigit_def netip_ParseAddr_def parseIPv4_def is_digit_def digit_val_def
      strings_Cut_before_def net_JoinHostPort_def Itoa_def Let_def)


lemma lookup_attempts:
  "t \<le> 5 \<Longrightarrow>
   resolve_attempts (snd (lookup resolve host t k evs)) \<le> resolve_attempts evs + (6 - t)"
proof (induction resolve host t k evs rule: lookup.induct)
  case (1 resolve host tryTimes k evs)
  show ?case
  proof (cases "resolve k host")
    case (Inr ip)
    with "1.prems" show ?thesis
      by (subst lookup.simps) (simp add: resolve_attempts_def)
  next
    case (Inl err)
    show ?thesis
    proof (cases "tryTimes < 5")
      case True
      with Inl "1.IH" [OF Inl True] show ?thesis
        by (subst lookup.simps) (simp add: resolve_attempts_def)
    next
      case False
      with Inl "1.prems" show ?thesis
        by (subst lookup.simps) (simp add: resolve_attempts_def)
    qed
  qed
qed

lemma lookup_succeeds_after:
  assumes "\<forall>j<n. \<exists>err. resolve (k + j) host = Inl err"
    and "resolve (k + n) host = Inr ip"
    and "t + n \<le> 5"
  shows "lookup resolve host t k evs =
           (Inr ip, evs @ concat (replicate n [EvResolve host, EvSleep 2]) @ [EvResolve host])"
  using assms
proof (induction n arbitrary: t k evs)
  case 0
  then show ?case by (subst lookup.simps) simp
next
  case (Suc n)
  from Suc.prems(1) obtain err where err: "resolve k host = Inl err"
    by (metis add.right_neutral zero_less_Suc)
  have a1: "\<forall>j<n. \<exists>err. resolve (Suc k + j) host = Inl err"
  proof (intro allI impI)
    fix j assume "j < n"
    then have "Suc j < Suc n" by simp
    with Suc.prems(1) have "\<exists>err. resolve (k + Suc j) host = Inl err" by blast
    then show "\<exists>err. resolve (Suc k + j) host = Inl err" by simp
  qed
  have a2: "resolve (Suc k + n) host = Inr ip" using Suc.prems(2) by simp
  have a3: "Suc t + n \<le> 5" using Suc.prems(3) by simp
  have t: "t < 5" using Suc.prems(3) by simp
  show ?case
    by (subst lookup.simps) (simp add: err t Suc.IH [OF a1 a2 a3])
qed

lemma lookup_fails:
  assumes "\<forall>j. \<exists>err. resolve j host = Inl err"
  shows "t \<le> 5 \<Longrightarrow> (\<exists>err. fst (lookup resolve host t k evs) = Inl err) \<and>
           resolve_attempts (snd (lookup resolve host t k evs)) = resolve_attempts evs + (6 - t)"
proof (induction "5 - t" arbitrary: t k evs)
  case 0
  then have t: "t = 5" by simp
  from assms obtain err where "resolve k host = Inl err" by blast
  then show ?case
    by (subst (1 2) lookup.simps) (simp add: t resolve_attempts_def)
next
  case (Suc m)
  then have t: "t < 5" by simp
  from assms obtain err where err: "resolve k host = Inl err" by blast
  have "m = 5 - Suc t" "Suc t \<le> 5" using Suc.hyps(2) by simp_all
  from Suc.hyps(1) [OF this, of "Suc k" "evs @ [EvResolve host, EvSleep 2]"]
  show ?case
    using t err
    by (subst (1 2) lookup.simps) (auto simp: resolve_attempts_def)
qed


lemma init_device_attempts:
  "resolve_attempts (snd (snd (init_device env w ep evs))) = resolve_attempts evs"
  by (simp add: init_device_def Let_def resolve_attempts_def split: sum.splits prod.splits option.splits)

lemma init_device_sleeps:
  "count_list (snd (snd (init_device env w ep evs))) (EvSleep d) = count_list evs (EvSleep d)"
  by (simp add: init_device_def Let_def split: sum.splits prod.splits option.splits)

lemma init_events_resolve:
  "resolve_attempts (snd (snd (WireGuard_init env w))) =
   resolve_attempts (snd (lookup (ResolveProxyServerHost env) (init_host w) 0 0 []))"
  by (simp add: WireGuard_init_def init_host_def init_device_attempts Let_def
      split: prod.splits sum.splits)

lemma init_device_ok:
  assumes "CreateNetTUN env (init_localIPs w) (dnsServers w) (mtu w) = Inr (t, n)"
    and "IpcSet env (strings_Join (uapiConf w) [CHR 0x0A]) = None"
  shows "init_device env w ep evs =
           (w\<lparr>bind := Some (NewWgBind ep (wg_reserved w)), tunDevice := Some t,
              netStack := Some n, wgDevice := Some (Device t (NewWgBind ep (wg_reserved w))),
              uapiConf := [], dnsServers := [], wg_reserved := None\<rparr>,
            None,
            evs @ [EvCreateNetTUN (init_localIPs w) (dnsServers w) (mtu w),
                   EvIpcSet (strings_Join (uapiConf w) [CHR 0x0A])])"
  using assms by (simp add: init_device_def Let_def)

text \<open>
  C2 (as amended).  For every resolver, init calls it at most six times: once, and again
  after each of at most five failures, with a sleep of two seconds before each retry.  When
  the resolver fails on the first four calls and succeeds on the fifth, init makes exactly
  five calls and four sleeps and goes on with the fifth result: the rest of bring-up runs
  with the endpoint made of that address, and when the network stack is created and the
  device accepts the configuration, init returns nil and the bind is the one made for that
  endpoint.
\<close>

theorem WireGuard_init_resolution:
  "resolve_attempts (snd (snd (WireGuard_init env w))) \<le> 6 \<and>
   ((\<forall>k<4. \<exists>err. ResolveProxyServerHost env k (init_host w) = Inl err) \<and>
    ResolveProxyServerHost env 4 (init_host w) = Inr ip \<longrightarrow>
      resolve_attempts (snd (snd (WireGuard_init env w))) = 5 \<and>
      count_list (snd (snd (WireGuard_init env w))) (EvSleep 2) = 4 \<and>
      WireGuard_init env w =
        init_device env
          (w\<lparr>uapiConf := uapiConf w
                @ [''endpoint='' @ AddrPort_String (Addr_String env) (ip, init_port w)]\<rparr>)
          (ip, init_port w)
          (snd (lookup (ResolveProxyServerHost env) (init_host w) 0 0 [])) \<and>
      ((\<forall>localIPs dns m. \<exists>tun stack. CreateNetTUN env localIPs dns m = Inr (tun, stack)) \<and>
       (\<forall>conf. IpcSet env conf = None) \<longrightarrow>
         fst (snd (WireGuard_init env w)) = None \<and>
         bind (fst (WireGuard_init env w)) = Some (NewWgBind (ip, init_port w) (wg_reserved w))))"
proof
  show "resolve_attempts (snd (snd (WireGuard_init env w))) \<le> 6"
  proof -
    have "resolve_attempts [] = 0" by (simp add: resolve_attempts_def)
    with lookup_attempts [of 0 "ResolveProxyServerHost env" "init_host w" 0 "[]"]
    show ?thesis by (simp add: init_events_resolve)
  qed
next
  show "(\<forall>k<4. \<exists>err. ResolveProxyServerHost env k (init_host w) = Inl err) \<and>
    ResolveProxyServerHost env 4 (init_host w) = Inr ip \<longrightarrow>
      resolve_attempts (snd (snd (WireGuard_init env w))) = 5 \<and>
      count_list (snd (snd (WireGuard_init env w))) (EvSleep 2) = 4 \<and>
      WireGuard_init env w =
        init_device env
          (w\<lparr>uapiConf := uapiConf w
                @ [''endpoint='' @ AddrPort_String (Addr_String env) (ip, init_port w)]\<rparr>)
          (ip, init_port w)
          (snd (lookup (ResolveProxyServerHost env) (init_host w) 0 0 [])) \<and>
      ((\<forall>localIPs dns m. \<exists>tun stack. CreateNetTUN env localIPs dns m = Inr (tun, stack)) \<and>
       (\<forall>conf. IpcSet env conf = None) \<longrightarrow>
         fst (snd (WireGuard_init env w)) = None \<and>
         bind (fst (WireGuard_init env w)) = Some (NewWgBind (ip, init_port w) (wg_reserved w)))"
  proof (intro impI, elim conjE)
    assume fails: "\<forall>k<4. \<exists>err. ResolveProxyServerHost env k (init_host w) = Inl err"
      and ok: "ResolveProxyServerHost env 4 (init_host w) = Inr ip"
    define evs5 where "evs5 = [EvResolve (init_host w), EvSleep 2, EvResolve (init_host w), EvSleep 2,
         EvResolve (init_host w), EvSleep 2, EvResolve (init_host w), EvSleep 2, EvResolve (init_host w)]"
    have "lookup (ResolveProxyServerHost env) (init_host w) 0 0 [] =
        (Inr ip, [] @ concat (replicate 4 [EvResolve (init_host w), EvSleep 2]) @ [EvResolve (init_host w)])"
      by (rule lookup_succeeds_after) (use fails ok in simp_all)
    then have l: "lookup (ResolveProxyServerHost env) (init_host w) 0 0 [] = (Inr ip, evs5)"
      by (simp add: eval_nat_numeral evs5_def)
    obtain host port e where sp: "net_SplitHostPort (base_addr (base w)) = (host, port, e)"
      by (cases "net_SplitHostPort (base_addr (base w))") auto
    then have host: "init_host w = host" and port: "init_port w = word_of_nat (strconv_ParseUint16 port)"
      by (simp_all add: init_host_def init_port_def)
    define w1 where "w1 = w\<lparr>uapiConf := uapiConf w
        @ [''endpoint='' @ AddrPort_String (Addr_String env) (ip, init_port w)]\<rparr>"
    have i: "WireGuard_init env w = init_device env w1 (ip, init_port w) evs5"
      using l sp by (simp add: WireGuard_init_def host [symmetric] Let_def w1_def port)
    have c: "resolve_attempts evs5 = 5" "count_list evs5 (EvSleep 2) = 4"
      by (simp_all add: evs5_def resolve_attempts_def)
    have ok': "fst (snd (WireGuard_init env w)) = None \<and>
         bind (fst (WireGuard_init env w)) = Some (NewWgBind (ip, init_port w) (wg_reserved w))"
      if tun: "\<forall>localIPs dns m. \<exists>tun stack. CreateNetTUN env localIPs dns m = Inr (tun, stack)"
        and ipc: "\<forall>conf. IpcSet env conf = None"
    proof -
      from tun obtain t n where t: "CreateNetTUN env (init_localIPs w1) (dnsServers w1) (mtu w1) = Inr (t, n)"
        by blast
      have ipc': "IpcSet env (strings_Join (uapiConf w1) [CHR 0x0A]) = None"
        using ipc by simp
      have r: "wg_reserved w1 = wg_reserved w" by (simp add: w1_def)
      show ?thesis
        unfolding i init_device_ok [OF t ipc'] by (simp add: r)
    qed
    show "resolve_attempts (snd (snd (WireGuard_init env w))) = 5 \<and>
      count_list (snd (snd (WireGuard_init env w))) (EvSleep 2) = 4 \<and>
      WireGuard_init env w =
        init_device env
          (w\<lparr>uapiConf := uapiConf w
                @ [''endpoint='' @ AddrPort_String (Addr_String env) (ip, init_port w)]\<rparr>)
          (ip, init_port w)
          (snd (lookup (ResolveProxyServerHost env) (init_host w) 0 0 [])) \<and>
      ((\<forall>localIPs dns m. \<exists>tun stack. CreateNetTUN env localIPs dns m = Inr (tun, stack)) \<and>
       (\<forall>conf. IpcSet env conf = None) \<longrightarrow>
         fst (snd (WireGuard_init env w)) = None \<and>
         bind (fst (WireGuard_init env w)) = Some (NewWgBind (ip, init_port w) (wg_reserved w)))"
      using ok' i c
      by (simp add: init_device_attempts init_device_sleeps l w1_def)
  qed
qed

text \<open>C2 at a resolver that fails four times and then answers 192.0.2.1.\<close>

theorem WireGuard_init_resolution_witness:
  "ResolveProxyServerHost env_fifth 0 (init_host w_ex) = Inl (ErrorNew ''no such host'') \<and>
   ResolveProxyServerHost env_fifth 1 (init_host w_ex) = Inl (ErrorNew ''no such host'') \<and>
   ResolveProxyServerHost env_fifth 2 (init_host w_ex) = Inl (ErrorNew ''no such host'') \<and>
   ResolveProxyServerHost env_fifth 3 (init_host w_ex) = Inl (ErrorNew ''no such host'') \<and>
   ResolveProxyServerHost env_fifth 4 (init_host w_ex) = Inr (Addr4 192 0 2 1) \<and>
   resolve_attempts (snd (snd (WireGuard_init env_fifth w_ex))) = 5 \<and>
   count_list (snd (snd (WireGuard_init env_fifth w_ex))) (EvSleep 2) = 4 \<and>
   fst (snd (WireGuard_init env_fifth w_ex)) = None \<and>
   bind (fst (WireGuard_init env_fifth w_ex)) = Some (NewWgBind (Addr4 192 0 2 1, 51820) None)"
proof -
  have sp: "net_SplitHostPort ''example.com:51820'' = (''example.com'', ''51820'', None)"
    by (simp add: net_SplitHostPort_def last_index_of_def index_of_def)
  have p: "init_port w_ex = 51820"
    by (simp add: init_port_def w_ex_def sp strconv_ParseUint16_def is_digit_def digit_val_def)
  have r: "wg_reserved w_ex = None" by (simp add: w_ex_def)
  have e: "\<forall>k<4. \<exists>err. ResolveProxyServerHost env_fifth k (init_host w_ex) = Inl err"
    "ResolveProxyServerHost env_fifth 4 (init_host w_ex) = Inr (Addr4 192 0 2 1)"
    "\<forall>localIPs dns m. \<exists>tun stack. CreateNetTUN env_fifth localIPs dns m = Inr (tun, stack)"
    "\<forall>conf. IpcSet env_fifth conf = None"
    by (simp_all add: env_fifth_def)
  from WireGuard_init_resolution [of env_fifth w_ex "Addr4 192 0 2 1"] e
  have "resolve_attempts (snd (snd (WireGuard_init env_fifth w_ex))) = 5 \<and>
      count_list (snd (snd (WireGuard_init env_fifth w_ex))) (EvSleep 2) = 4 \<and>
      fst (snd (WireGuard_init env_fifth w_ex)) = None \<and>
      bind (fst (WireGuard_init env_fifth w_ex)) = Some (NewWgBind (Addr4 192 0 2 1, init_port w_ex) (wg_reserved w_ex))"
    by blast
  then show ?thesis
    by (simp add: p r) (simp add: env_fifth_def)
qed

text \<open>
  C2 as stated fails for a resolver that never answers: init calls it six times, not five,
  before it fails for good.
\<close>

theorem WireGuard_init_six_attempts_counterexample:
  "resolve_attempts (snd (snd (WireGuard_init env_never w_ex))) = 6 \<and>
   fst (snd (WireGuard_init env_never w_ex)) =
     Some (ErrorfW ''parse server endpoint [example.com:51820] failure, cause: ''
             (ErrorNew ''no such host''))"
proof -
  have l: "lookup (ResolveProxyServerHost env_never) h 0 0 [] =
      (Inl (ErrorNew ''no such host''),
       [EvResolve h, EvSleep 2, EvResolve h, EvSleep 2, EvResolve h, EvSleep 2,
        EvResolve h, EvSleep 2, EvResolve h, EvSleep 2, EvResolve h])" for h
    by (simp add: lookup.simps env_never_def)
  have sp: "net_SplitHostPort ''example.com:51820'' = (''example.com'', ''51820'', None)"
    by (simp add: net_SplitHostPort_def last_index_of_def index_of_def)
  show ?thesis
    by (simp add: WireGuard_init_def l resolve_attempts_def w_ex_def sp)
qed


subsection \<open>Construction of the outbound\<close>

lemma parse_local_10_0_0_2:
  "parse_local parse6 ''10.0.0.2/32'' msg = Inr (Addr4 10 0 0 2)"
  by (simp add: parse_local_def netip_ParseAddr_def parseIPv4_def is_digit_def digit_val_def
      strings_Cut_before_def)

lemma parse_local_empty: "parse_local parse6 [] msg = Inr AddrZero"
  by (simp add: parse_local_def)

lemma parse_dns_servers_default:
  "parse_dns_servers parse6 [] = Inr [AddrZero, AddrZero, Addr4 1 1 1 1, Addr4 8 8 8 8]"
  by (simp add: parse_dns_servers_def netip_ParseAddr_def parseIPv4_def is_digit_def digit_val_def)

lemma uapi_keys_no_preshared:
  assumes "base64_DecodeString (opt_PrivateKey opt) = Inr sk"
    and "base64_DecodeString (opt_PublicKey opt) = Inr pk"
    and "opt_PresharedKey opt = []"
  shows "uapi_keys opt = Inr [''private_key='' @ hex_EncodeToString sk,
                              ''public_key='' @ hex_EncodeToString pk]"
  using assms by (simp add: uapi_keys_def)

lemma NewWireGuard_fields:
  assumes "base64_DecodeString (opt_PrivateKey opt) = Inr sk"
    and "base64_DecodeString (opt_PublicKey opt) = Inr pk"
    and "opt_PresharedKey opt = []"
    and "opt_IP opt = ''10.0.0.2/32''" and "opt_IPv6 opt = []"
    and "NewWireGuard parse6 rnd opt = Inr w"
  shows "uapiConf w = [''private_key='' @ hex_EncodeToString sk,
                       ''public_key='' @ hex_EncodeToString pk, ''allowed_ip=0.0.0.0/0'']"
    and "localIP w = Addr4 10 0 0 2" and "localIPv6 w = AddrZero"
proof -
  note k = uapi_keys_no_preshared [OF assms(1-3)]
  from assms(6) have "uapiConf w = [''private_key='' @ hex_EncodeToString sk,
                       ''public_key='' @ hex_EncodeToString pk, ''allowed_ip=0.0.0.0/0''] \<and>
      localIP w = Addr4 10 0 0 2 \<and> localIPv6 w = AddrZero"
    unfolding NewWireGuard_def k assms(4,5) parse_local_10_0_0_2 parse_local_empty
    by (cases "decode_reserved opt"; cases "parse_dns_servers parse6 (opt_DNS opt)")
       (auto simp: Let_def)
  then show "uapiConf w = [''private_key='' @ hex_EncodeToString sk,
                       ''public_key='' @ hex_EncodeToString pk, ''allowed_ip=0.0.0.0/0'']"
    and "localIP w = Addr4 10 0 0 2" and "localIPv6 w = AddrZero"
    by simp_all
qed

lemma NewWireGuard_dnsServers:
  assumes "NewWireGuard parse6 rnd opt = Inr w"
  shows "parse_dns_servers parse6 (opt_DNS opt) = Inr (dnsServers w)"
proof -
  from assms obtain c3 where c3: "uapi_keys opt = Inr c3"
    unfolding NewWireGuard_def by (cases "uapi_keys opt") simp_all
  from assms obtain rb where rb: "decode_reserved opt = Inr rb"
    unfolding NewWireGuard_def c3 by (cases "decode_reserved opt") simp_all
  from assms obtain ip4 where ip4: "parse_local parse6 (opt_IP opt)
       ''parse wireguard ip address failure, cause: '' = Inr ip4"
    unfolding NewWireGuard_def c3 rb
    by (cases "parse_local parse6 (opt_IP opt) ''parse wireguard ip address failure, cause: ''")
      simp_all
  from assms obtain ip6 where ip6: "parse_local parse6 (opt_IPv6 opt)
       ''parse wireguard ipv6 address failure, cause: '' = Inr ip6"
    unfolding NewWireGuard_def c3 rb ip4
    by (cases "parse_local parse6 (opt_IPv6 opt) ''parse wireguard ipv6 address failure, cause: ''")
      simp_all
  from assms show ?thesis
    unfolding NewWireGuard_def c3 rb ip4 ip6
    by (cases "parse_dns_servers parse6 (opt_DNS opt)")
       (auto simp: Let_def split: if_splits)
qed

lemma NewWireGuard_no_dns:
  assumes "NewWireGuard parse6 rnd opt = Inr w" and "opt_DNS opt = []"
  shows "dnsServers w = [AddrZero, AddrZero, Addr4 1 1 1 1, Addr4 8 8 8 8]"
  using NewWireGuard_dnsServers [OF assms(1)] assms(2)
  by (simp add: parse_dns_servers_default)

lemma init_device_IpcSet:
  assumes "CreateNetTUN env (init_localIPs w) (dnsServers w) (mtu w) = Inr (t, n)"
  shows "EvIpcSet (strings_Join (uapiConf w) [CHR 0x0A]) \<in> set (snd (snd (init_device env w ep evs)))"
  using assms by (simp add: init_device_def Let_def split: option.splits)

text \<open>
  C3 (as amended).  For a private key and a public key that decode, no preshared key, the
  local IPv4 address 10.0.0.2/32 and no IPv6 address, NewWireGuard leaves the lines
  \<open>private_key=<hex>\<close>, \<open>public_key=<hex>\<close>, \<open>allowed_ip=0.0.0.0/0\<close>, and the
  configuration bring-up hands to the device is, in this order, those three lines followed
  by \<open>endpoint=<ip>:<port>\<close>: the endpoint line comes last, there is no preshared_key
  line and no \<open>allowed_ip=::/0\<close> line.
\<close>

theorem uapi_configuration_lines:
  assumes "base64_DecodeString (opt_PrivateKey opt) = Inr sk"
    and "base64_DecodeString (opt_PublicKey opt) = Inr pk"
    and "opt_PresharedKey opt = []"
    and "opt_IP opt = ''10.0.0.2/32''" and "opt_IPv6 opt = []"
    and "NewWireGuard parse6 rnd opt = Inr w"
    and "fst (lookup (ResolveProxyServerHost env) (init_host w) 0 0 []) = Inr ip"
    and "CreateNetTUN env [Addr4 10 0 0 2] (dnsServers w) (mtu w) = Inr (t, n)"
  shows "uapiConf w = [''private_key='' @ hex_EncodeToString sk,
                       ''public_key='' @ hex_EncodeToString pk, ''allowed_ip=0.0.0.0/0''] \<and>
         EvIpcSet (strings_Join
                     [''private_key='' @ hex_EncodeToString sk,
                      ''public_key='' @ hex_EncodeToString pk,
                      ''allowed_ip=0.0.0.0/0'',
                      ''endpoint='' @ AddrPort_String (Addr_String env) (ip, init_port w)]
                     [CHR 0x0A])
           \<in> set (snd (snd (WireGuard_init env w)))"
proof -
  note f = NewWireGuard_fields [OF assms(1-6)]
  obtain host port e where sp: "net_SplitHostPort (base_addr (base w)) = (host, port, e)"
    by (cases "net_SplitHostPort (base_addr (base w))") auto
  then have host: "init_host w = host" and port: "init_port w = word_of_nat (strconv_ParseUint16 port)"
    by (simp_all add: init_host_def init_port_def)
  obtain evs where l: "lookup (ResolveProxyServerHost env) host 0 0 [] = (Inr ip, evs)"
    using assms(7) unfolding host
    by (cases "lookup (ResolveProxyServerHost env) host 0 0 []") auto
  define w1 where "w1 = w\<lparr>uapiConf := uapiConf w
      @ [''endpoint='' @ AddrPort_String (Addr_String env) (ip, init_port w)]\<rparr>"
  have i: "WireGuard_init env w = init_device env w1 (ip, init_port w) evs"
    using l sp by (simp add: WireGuard_init_def Let_def w1_def port)
  have t: "CreateNetTUN env (init_localIPs w1) (dnsServers w1) (mtu w1) = Inr (t, n)"
    using assms(8) by (simp add: w1_def init_localIPs_def f)
  have "EvIpcSet (strings_Join (uapiConf w1) [CHR 0x0A]) \<in> set (snd (snd (WireGuard_init env w)))"
    unfolding i by (rule init_device_IpcSet [OF t])
  then show ?thesis
    using f(1) by (simp add: w1_def)
qed


lemma SplitHostPort_ex:
  "net_SplitHostPort ''example.com:51820'' = (''example.com'', ''51820'', None)"
  by (simp add: net_SplitHostPort_def last_index_of_def index_of_def)

lemma lookup_env_fifth:
  "lookup (ResolveProxyServerHost env_fifth) h 0 0 [] =
     (Inr (Addr4 192 0 2 1),
      [EvResolve h, EvSleep 2, EvResolve h, EvSleep 2, EvResolve h, EvSleep 2,
       EvResolve h, EvSleep 2, EvResolve h])"
  by (simp add: lookup.simps env_fifth_def)

lemma init_env_fifth_w_ex:
  "snd (snd (WireGuard_init env_fifth w_ex)) =
     [EvResolve ''example.com'', EvSleep 2, EvResolve ''example.com'', EvSleep 2,
      EvResolve ''example.com'', EvSleep 2, EvResolve ''example.com'', EvSleep 2,
      EvResolve ''example.com'',
      EvCreateNetTUN [Addr4 10 0 0 2] [AddrZero, AddrZero, Addr4 1 1 1 1, Addr4 8 8 8 8] 1408,
      EvIpcSet ''private_key=0000000000000000000000000000000000000000000000000000000000000000\<newline>public_key=0410410410410410410410410410410410410410410410410410410410410410\<newline>allowed_ip=0.0.0.0/0\<newline>endpoint=192.0.2.1:51820'']"
proof -
  have b: "base_addr (base w_ex) = ''example.com:51820''" by (simp add: w_ex_def)
  have e: "CreateNetTUN env_fifth a b c = Inr (1, 2)" "IpcSet env_fifth conf = None" for a b c conf
    by (simp_all add: env_fifth_def)
  show ?thesis
    by (simp add: WireGuard_init_def b SplitHostPort_ex lookup_env_fifth init_device_def e Let_def
        strconv_ParseUint16_def is_digit_def digit_val_def init_localIPs_def)
      (simp add: w_ex_def)
qed

text \<open>C3 at the keys of 43 letters A and 43 letters B, the endpoint resolved to 192.0.2.1.\<close>

theorem uapi_configuration_lines_witness:
  "NewWireGuard parse6_none 7 opt_ex = Inr w_ex \<and>
   uapiConf w_ex =
     [''private_key=0000000000000000000000000000000000000000000000000000000000000000'',
      ''public_key=0410410410410410410410410410410410410410410410410410410410410410'',
      ''allowed_ip=0.0.0.0/0''] \<and>
   EvIpcSet (strings_Join
      [''private_key=0000000000000000000000000000000000000000000000000000000000000000'',
       ''public_key=0410410410410410410410410410410410410410410410410410410410410410'',
       ''allowed_ip=0.0.0.0/0'',
       ''endpoint=192.0.2.1:51820''] [CHR 0x0A])
     \<in> set (snd (snd (WireGuard_init env_fifth w_ex)))"
proof -
  have h1: "base64_DecodeString (opt_PrivateKey opt_ex) = Inr sk_ex"
    by (simp add: opt_ex_def base64_DecodeString_def b64_value_def sk_ex_def)
  have h2: "base64_DecodeString (opt_PublicKey opt_ex) = Inr pk_ex"
    by (simp add: opt_ex_def base64_DecodeString_def b64_value_def pk_ex_def)
  have h3: "opt_PresharedKey opt_ex = []" "opt_IP opt_ex = ''10.0.0.2/32''" "opt_IPv6 opt_ex = []"
    by (simp_all add: opt_ex_def)
  have h7: "fst (lookup (ResolveProxyServerHost env_fifth) (init_host w_ex) 0 0 []) = Inr (Addr4 192 0 2 1)"
    by (simp add: lookup_env_fifth)
  have h8: "CreateNetTUN env_fifth [Addr4 10 0 0 2] (dnsServers w_ex) (mtu w_ex) = Inr (1, 2)"
    by (simp add: env_fifth_def)
  have p: "init_port w_ex = 51820"
    by (simp add: init_port_def w_ex_def SplitHostPort_ex strconv_ParseUint16_def is_digit_def digit_val_def)
  have x: "hex_EncodeToString sk_ex = ''0000000000000000000000000000000000000000000000000000000000000000''"
    "hex_EncodeToString pk_ex = ''0410410410410410410410410410410410410410410410410410410410410410''"
    by (simp_all add: hex_EncodeToString_def hexdigit_def pk_ex_def sk_ex_def)
  show ?thesis
    using uapi_configuration_lines [OF h1 h2 h3 NewWireGuard_opt_ex h7 h8] NewWireGuard_opt_ex
    by (simp add: p x env_fifth_def)
qed

text \<open>
  C3 as stated fails at that input: the last event of bring-up is the configuration with
  \<open>allowed_ip\<close> before \<open>endpoint\<close>, and the configuration in the order of the claim
  is never handed to the device.
\<close>

theorem uapi_configuration_lines_counterexample:
  "NewWireGuard parse6_none 7 opt_ex = Inr w_ex \<and>
   last (snd (snd (WireGuard_init env_fifth w_ex))) =
     EvIpcSet ''private_key=0000000000000000000000000000000000000000000000000000000000000000\<newline>public_key=0410410410410410410410410410410410410410410410410410410410410410\<newline>allowed_ip=0.0.0.0/0\<newline>endpoint=192.0.2.1:51820'' \<and>
   EvIpcSet ''private_key=0000000000000000000000000000000000000000000000000000000000000000\<newline>public_key=0410410410410410410410410410410410410410410410410410410410410410\<newline>endpoint=192.0.2.1:51820\<newline>allowed_ip=0.0.0.0/0''
     \<notin> set (snd (snd (WireGuard_init env_fifth w_ex)))"
  by (simp add: NewWireGuard_opt_ex init_env_fifth_w_ex)

text \<open>
  C9 (the code at the failing input).  With no DNS server configured, the list NewWireGuard
  builds, and bring-up hands to the network stack, has four entries: two zero addresses
  first, then 1.1.1.1 and 8.8.8.8.
\<close>

theorem NewWireGuard_default_dns:
  "map_sum id dnsServers (NewWireGuard parse6_none 7 opt_ex) =
     Inr [AddrZero, AddrZero, Addr4 1 1 1 1, Addr4 8 8 8 8] \<and>
   EvCreateNetTUN [Addr4 10 0 0 2] [AddrZero, AddrZero, Addr4 1 1 1 1, Addr4 8 8 8 8] 1408
     \<in> set (snd (snd (WireGuard_init env_fifth w_ex)))"
  by (simp add: NewWireGuard_opt_ex init_env_fifth_w_ex) (simp add: w_ex_def)

end
